theory Spec2Isabelle
  imports Main
begin

text \<open>
  The connector is a local HTTP proxy that forwards every request to one remote
  endpoint after an authentication provider has attached credentials to it. This theory
  embeds its request handler \<^verbatim>\<open>Proxy.ServeHTTP\<close> with \<^verbatim>\<open>isLoopbackAddr\<close> (package
  \<^verbatim>\<open>proxy\<close>) and \<^verbatim>\<open>newProxyFromFlags\<close> (\<^verbatim>\<open>cmd/flags.go\<close>), and proves what the handler
  writes, logs and leaves behind on every path through it.
\<close>

section \<open>Go values used by the proxy\<close>

text \<open>
  A Go \<^verbatim>\<open>string\<close> and a \<^verbatim>\<open>[]byte\<close> are both sequences of bytes: \<open>string\<close> here.
  An \<^verbatim>\<open>error\<close> value is represented by the text its \<^verbatim>\<open>Error()\<close> method returns, which is
  all the handler ever does with one (it prints it).
\<close>

type_synonym bytes = string
type_synonym error = string

definition LF :: string where
  "LF = [CHR 0x0A]"

text \<open>
  Comparison of Go strings with \<^verbatim>\<open>>=\<close> is bytewise lexicographic.
\<close>

fun string_ge :: "string \<Rightarrow> string \<Rightarrow> bool" where
  "string_ge a [] = True"
| "string_ge [] (y # ys) = False"
| "string_ge (x # xs) (y # ys) =
     (if (of_char y :: nat) < of_char x then True
      else if (of_char x :: nat) < of_char y then False
      else string_ge xs ys)"

text \<open>
  \<^verbatim>\<open>fmt.Sprintln\<close> of operands that are already text: a space between any two operands, a
  newline at the end. An \<^verbatim>\<open>int\<close> operand prints in decimal (\<open>Itoa\<close>).
\<close>

fun join_operands :: "string list \<Rightarrow> string" where
  "join_operands [] = []"
| "join_operands [x] = x"
| "join_operands (x # y # ys) = x @ '' '' @ join_operands (y # ys)"

definition Sprintln :: "string list \<Rightarrow> string" where
  "Sprintln operands = join_operands operands @ LF"

definition digit :: "nat \<Rightarrow> char" where
  "digit n = ''0123456789'' ! n"

function nat_digits :: "nat \<Rightarrow> string" where
  "nat_digits n =
     (if n < 10 then [digit n]
      else nat_digits (n div 10) @ [digit (n mod 10)])"
  by pat_completeness auto
termination
  by (relation "measure id") auto

declare nat_digits.simps [simp del]

definition Itoa :: "int \<Rightarrow> string" where
  "Itoa i = (if i < 0 then CHR ''-'' # nat_digits (nat (- i)) else nat_digits (nat i))"

section \<open>The loopback classifier\<close>

text \<open>
  \<^verbatim>\<open>net.SplitHostPort\<close> of the Go standard library, which \<^verbatim>\<open>isLoopbackAddr\<close> calls. On
  an error it returns two empty strings and the error. The five reasons of its
  \<^verbatim>\<open>AddrError\<close> are the constructors below (in Go they are the messages "missing port in
  address", "too many colons in address", "missing ']' in address", "unexpected '[' in
  address" and "unexpected ']' in address").
\<close>

datatype AddrError =
  missingPort | tooManyColons | missingBracket | unexpectedOpen | unexpectedClose

fun IndexByteString :: "string \<Rightarrow> char \<Rightarrow> int" where
  "IndexByteString [] c = - 1"
| "IndexByteString (x # xs) c =
     (if x = c then 0
      else (let i = IndexByteString xs c in if i < 0 then - 1 else i + 1))"

fun LastIndexByteString :: "string \<Rightarrow> char \<Rightarrow> int" where
  "LastIndexByteString [] c = - 1"
| "LastIndexByteString (x # xs) c =
     (let i = LastIndexByteString xs c
      in if 0 \<le> i then i + 1 else if x = c then 0 else - 1)"

text \<open>The Go slice expression \<^verbatim>\<open>s[a:b]\<close>, for \<open>0 \<le> a \<le> b \<le> len(s)\<close>.\<close>

definition slice :: "string \<Rightarrow> int \<Rightarrow> int \<Rightarrow> string" where
  "slice s a b = take (nat (b - a)) (drop (nat a) s)"

definition addrErr :: "AddrError \<Rightarrow> string \<times> string \<times> AddrError option" where
  "addrErr why = ([], [], Some why)"

definition SplitHostPort :: "string \<Rightarrow> string \<times> string \<times> AddrError option" where
  "SplitHostPort hostport =
     (let i = LastIndexByteString hostport (CHR '':'');
          finish = (\<lambda>host j k.
            if 0 \<le> IndexByteString (drop j hostport) (CHR ''['') then addrErr unexpectedOpen
            else if 0 \<le> IndexByteString (drop k hostport) (CHR '']'') then addrErr unexpectedClose
            else (host, drop (nat (i + 1)) hostport, None))
      in if i < 0 then addrErr missingPort
         else if take 1 hostport = ''['' then
           (let e = IndexByteString hostport (CHR '']'')
            in if e < 0 then addrErr missingBracket
               else if e + 1 = int (length hostport) then addrErr missingPort
               else if e + 1 = i then finish (slice hostport 1 e) 1 (nat (e + 1))
               else if hostport ! nat (e + 1) = CHR '':'' then addrErr tooManyColons
               else addrErr missingPort)
         else
           (let host = slice hostport 0 i
            in if 0 \<le> IndexByteString host (CHR '':'') then addrErr tooManyColons
               else finish host 0 0))"

text \<open>The loop of \<^verbatim>\<open>isLoopbackAddr\<close> over its list of hosts.\<close>

fun host_in :: "string list \<Rightarrow> string \<Rightarrow> bool" where
  "host_in [] host = False"
| "host_in (h # hs) host = (if h = host then True else host_in hs host)"

definition isLoopbackAddr :: "string \<Rightarrow> bool" where
  "isLoopbackAddr addr =
     (let hosts = [''localhost'', ''127.0.0.1'', ''::1''];
          (host, _, _) = SplitHostPort addr
      in host_in hosts host)"

section \<open>Requests, responses and the collaborators of the handler\<close>

definition LogWhenOnError :: string where "LogWhenOnError = ''onError''"
definition LogWhenOnNon200 :: string where "LogWhenOnNon200 = ''onNon200''"
definition LogWhenAlways :: string where "LogWhenAlways = ''always''"
definition LogWhatBasic :: string where "LogWhatBasic = ''basic''"
definition LogWhatDetailed :: string where "LogWhatDetailed = ''detailed''"

record Params =
  Local :: string
  Remote :: string
  Method :: string
  CertPath :: string
  Insecure :: bool
  Whenlog :: string
  Whatlog :: string

text \<open>
  An \<^verbatim>\<open>http.Header\<close> is a reference to a map from names to lists of values. Two
  requests can hold the same reference, so the maps live in a store and a request holds
  the address of its map. \<^verbatim>\<open>make(http.Header)\<close> appends a new, empty map to the store.
\<close>

type_synonym header = "(string \<times> string list) list"
type_synonym addr = nat
type_synonym heap = "header list"

definition make_Header :: "heap \<Rightarrow> addr \<times> heap" where
  "make_Header hp = (length hp, hp @ [[]])"

text \<open>
  \<^verbatim>\<open>Header.Get\<close>: the first value stored under the name, or the empty string. The
  only name the handler asks for, \<^verbatim>\<open>Content-Encoding\<close>, is already in canonical form.
\<close>

definition Header_Get :: "header \<Rightarrow> string \<Rightarrow> string" where
  "Header_Get h name = (case map_of h name of Some (v # _) \<Rightarrow> v | _ \<Rightarrow> [])"

text \<open>
  The fields of \<^verbatim>\<open>url.URL\<close>, \<^verbatim>\<open>http.Request\<close> and \<^verbatim>\<open>http.Response\<close> that the handler
  and its collaborators read or write. A body is the bytes its reader delivers.
\<close>

record URL =
  Scheme :: string
  Host :: string
  Path :: string
  RawQuery :: string
  Fragment :: string

record Request =
  req_Method :: string
  req_URL :: URL
  req_Header :: addr
  req_ContentLength :: int
  req_Body :: bytes
  req_Host :: string

record Response =
  StatusCode :: int
  resp_Header :: header
  resp_Body :: bytes

text \<open>
  An \<^verbatim>\<open>http.ResponseWriter\<close> is an interface of the standard library: \<^verbatim>\<open>Header()\<close>,
  \<^verbatim>\<open>WriteHeader(code)\<close> and \<^verbatim>\<open>Write(bytes)\<close>, the last returning a count and an
  error. The writer records the calls made on it, in order; \<open>write_error\<close> is the error
  its \<^verbatim>\<open>Write\<close> returns (for instance on a connection the caller has closed), \<open>None\<close>
  when the write succeeds.
\<close>

datatype rw_call = WriteHeader int | Write bytes

record ResponseWriter =
  rw_Header :: header
  calls :: "rw_call list"
  write_error :: "error option"

definition rw_WriteHeader :: "ResponseWriter \<Rightarrow> int \<Rightarrow> ResponseWriter" where
  "rw_WriteHeader w code = w\<lparr>calls := calls w @ [WriteHeader code]\<rparr>"

definition rw_Write :: "ResponseWriter \<Rightarrow> bytes \<Rightarrow> ResponseWriter \<times> error option" where
  "rw_Write w b = (w\<lparr>calls := calls w @ [Write b]\<rparr>, write_error w)"

text \<open>
  The functions of the Go standard library whose results the handler branches on are
  parameters of the model:
  \<^item> \<open>URL_String\<close> is \<^verbatim>\<open>(*url.URL).String\<close>;
  \<^item> \<open>NewRequest_URL method url\<close> is what \<^verbatim>\<open>http.NewRequest\<close> makes of its first two
    arguments: the error it returns (an invalid method, a URL that does not parse), or
    the URL of the new request;
  \<^item> \<open>gzip_NewReader\<close> is \<^verbatim>\<open>gzip.NewReader\<close> on a body, which reads the gzip header and
    fails on a malformed one; the reader it returns is the stream that remains;
  \<^item> \<open>ioutil_ReadAll\<close> is \<^verbatim>\<open>ioutil.ReadAll\<close> on that reader: the decompressed data, or
    the error of a malformed or truncated stream.
\<close>

type_synonym gzip_Reader = bytes

record stdlib =
  URL_String :: "URL \<Rightarrow> string"
  NewRequest_URL :: "string \<Rightarrow> string \<Rightarrow> error + URL"
  gzip_NewReader :: "bytes \<Rightarrow> error + gzip_Reader"
  ioutil_ReadAll :: "gzip_Reader \<Rightarrow> error + bytes"

text \<open>
  \<^verbatim>\<open>http.NewRequest(method, url, body)\<close> with a \<^verbatim>\<open>*bytes.Buffer\<close> as body: an empty method
  means GET, the new request gets a header map of its own, the buffer as its body and
  the buffer's length as its content length.
\<close>

definition http_NewRequest ::
  "stdlib \<Rightarrow> string \<Rightarrow> string \<Rightarrow> bytes \<Rightarrow> heap \<Rightarrow> error + (Request \<times> heap)" where
  "http_NewRequest lib method url body hp =
     (let method = (if method = [] then ''GET'' else method)
      in case NewRequest_URL lib method url of
           Inl err \<Rightarrow> Inl err
         | Inr u \<Rightarrow>
             (let (h, hp) = make_Header hp
              in Inr (\<lparr>req_Method = method, req_URL = u, req_Header = h,
                        req_ContentLength = int (length body), req_Body = body,
                        req_Host = Host u\<rparr>, hp)))"

text \<open>
  The \<^verbatim>\<open>Provider\<close> interface, as far as the handler uses it. \<open>Modify\<close> receives the
  parameters and a pointer to the outgoing request: it may change the request's fields
  and the header maps in the store. \<open>Client_Do\<close> is \<^verbatim>\<open>Client().Do\<close>: it reads the request
  and its headers and returns a response or an error.
\<close>

record Provider =
  Modify :: "Params \<Rightarrow> Request \<Rightarrow> heap \<Rightarrow> Request \<times> heap"
  Client_Do :: "Request \<Rightarrow> heap \<Rightarrow> error + Response"

record Proxy =
  Params :: Params
  Provider :: Provider

section \<open>Proxy.ServeHTTP\<close>

text \<open>
  The state of one call: the response writer and the inbound request (both passed by
  reference, so the caller sees what the handler does to them), the store of header
  maps, the blocks printed on standard output, and the handler's local variables
  \<^verbatim>\<open>completeFlag\<close>, \<^verbatim>\<open>logFlag\<close> and \<^verbatim>\<open>logStrBuilder\<close>.

  The calls of the handler that only release a resource (\<^verbatim>\<open>response.Body.Close\<close> and
  \<^verbatim>\<open>reader.Close\<close>, both deferred) change nothing in this state and are left out. The
  reads the handler makes with \<^verbatim>\<open>_, _ = buf.ReadFrom(...)\<close> discard the error, so a body
  is the bytes its reader delivers, however the stream ended. A panic in a collaborator
  is not modelled.
\<close>

record ctx =
  c_rw :: ResponseWriter
  c_req :: Request
  c_store :: heap
  c_stdout :: "string list"
  completeFlag :: bool
  logFlag :: bool
  logStrBuilder :: string

definition WriteString :: "ctx \<Rightarrow> string \<Rightarrow> ctx" where
  "WriteString c s = c\<lparr>logStrBuilder := logStrBuilder c @ s\<rparr>"

text \<open>Lines 81 to 86: the target of the outgoing call.\<close>

definition rewrite_target :: "Params \<Rightarrow> URL \<Rightarrow> URL" where
  "rewrite_target params u =
     (let u = u\<lparr>Host := Remote params\<rparr>;
          u = u\<lparr>Scheme := ''https''\<rparr>
      in if isLoopbackAddr (Host u) then u\<lparr>Scheme := ''http''\<rparr> else u)"

text \<open>Lines 94 to 101: the transport request, or the error of \<^verbatim>\<open>http.NewRequest\<close>.\<close>

definition build_request ::
  "stdlib \<Rightarrow> Request \<Rightarrow> bytes \<Rightarrow> heap \<Rightarrow> error + (Request \<times> heap)" where
  "build_request lib req buf hp =
     (case http_NewRequest lib (req_Method req) (URL_String lib (req_URL req)) buf hp of
        Inl err \<Rightarrow> Inl err
      | Inr (req1, hp) \<Rightarrow>
          (let req1 = req1\<lparr>req_ContentLength := req_ContentLength req\<rparr>;
               req1 = req1\<lparr>req_Header := req_Header req\<rparr>;
               req1 = req1\<lparr>req_Method := req_Method req\<rparr>
           in Inr (req1, hp)))"

text \<open>
  Lines 113 to 132: the buffered body of the response, or the line the handler logs
  before it returns.
\<close>

definition read_body :: "stdlib \<Rightarrow> Response \<Rightarrow> string + bytes" where
  "read_body lib response =
     (if Header_Get (resp_Header response) ''Content-Encoding'' = ''gzip'' then
        (case gzip_NewReader lib (resp_Body response) of
           Inl err \<Rightarrow> Inl (Sprintln [''Error while decoding gzip data:'' @ LF, err])
         | Inr reader \<Rightarrow>
             (case ioutil_ReadAll lib reader of
                Inl err \<Rightarrow> Inl (Sprintln [''Error while reading gzip data:'' @ LF, err])
              | Inr data \<Rightarrow> Inr data))
      else Inr (resp_Body response))"

text \<open>Lines 135 to 155: log the status, write the response, set the flags.\<close>

definition respond :: "Params \<Rightarrow> Response \<Rightarrow> bytes \<Rightarrow> ctx \<Rightarrow> ctx" where
  "respond params response buf c =
     (let c = WriteString c (Sprintln [''Response Status Code:'', Itoa (StatusCode response)]);
          c = (if string_ge (Whatlog params) LogWhatDetailed
               then WriteString c (Sprintln [buf]) else c);
          c = c\<lparr>c_rw := rw_WriteHeader (c_rw c) (StatusCode response)\<rparr>;
          c = (case rw_Write (c_rw c) buf of (w, _) \<Rightarrow> c\<lparr>c_rw := w\<rparr>);
          c = c\<lparr>completeFlag := True\<rparr>;
          c = (if Whenlog params = LogWhenOnError then c\<lparr>logFlag := False\<rparr> else c)
      in if Whenlog params = LogWhenOnNon200
         then (if StatusCode response = 200 then c\<lparr>logFlag := False\<rparr> else c)
         else c)"

text \<open>
  Lines 78 to 155, the body of the handler: each \<^verbatim>\<open>return\<close> of the source is a branch
  that ends with the state reached there.
\<close>

definition serve :: "stdlib \<Rightarrow> Proxy \<Rightarrow> ctx \<Rightarrow> ctx" where
  "serve lib p c =
     (let params = Params p;
          buf = req_Body (c_req c);
          c = c\<lparr>c_req := (c_req c)\<lparr>req_Body := []\<rparr>\<rparr>;
          c = c\<lparr>c_req := (c_req c)\<lparr>req_URL := rewrite_target params (req_URL (c_req c))\<rparr>\<rparr>;
          c = WriteString c
                (Sprintln [''Requesting:'', req_Method (c_req c), URL_String lib (req_URL (c_req c))]);
          c = (if string_ge (Whatlog params) LogWhatDetailed
               then WriteString c (buf @ LF) else c)
      in case build_request lib (c_req c) buf (c_store c) of
           Inl err \<Rightarrow>
             WriteString c (Sprintln [''Error when make transport request:'' @ LF, err])
         | Inr (req1, hp) \<Rightarrow>
             (case Modify (Provider p) params req1 hp of
                (req1, hp) \<Rightarrow>
                  (let c = c\<lparr>c_store := hp\<rparr>
                   in case Client_Do (Provider p) req1 hp of
                        Inl err \<Rightarrow>
                          WriteString c
                            (Sprintln [''Error when send the transport request:'' @ LF, err])
                      | Inr response \<Rightarrow>
                          (case read_body lib response of
                             Inl line \<Rightarrow> WriteString c line
                           | Inr buf \<Rightarrow> respond params response buf c))))"

text \<open>
  The two deferred functions. They run when the body has returned, the one registered
  last first: the log is printed (lines 72 to 76, \<^verbatim>\<open>fmt.Println\<close> of the builder's text),
  then the guard writes 502 if the response was not completed (lines 56 to 60).
\<close>

definition deferred_log :: "ctx \<Rightarrow> ctx" where
  "deferred_log c =
     (if logFlag c then c\<lparr>c_stdout := c_stdout c @ [Sprintln [logStrBuilder c]]\<rparr> else c)"

definition deferred_guard :: "ctx \<Rightarrow> ctx" where
  "deferred_guard c =
     (if \<not> completeFlag c then c\<lparr>c_rw := rw_WriteHeader (c_rw c) 502\<rparr> else c)"

text \<open>Lines 47 to 76: the state in which the body starts.\<close>

definition enter :: "ResponseWriter \<Rightarrow> Request \<Rightarrow> heap \<Rightarrow> string list \<Rightarrow> ctx" where
  "enter w req hp out =
     \<lparr>c_rw = w, c_req = req, c_store = hp, c_stdout = out,
      completeFlag = False, logFlag = True, logStrBuilder = []\<rparr>"

definition ServeHTTP ::
  "stdlib \<Rightarrow> Proxy \<Rightarrow> ResponseWriter \<Rightarrow> Request \<Rightarrow> heap \<Rightarrow> string list \<Rightarrow> ctx" where
  "ServeHTTP lib p w req hp out =
     deferred_guard (deferred_log (serve lib p (enter w req hp out)))"

section \<open>newProxyFromFlags\<close>

text \<open>
  The command line after \<^verbatim>\<open>flag.Parse\<close>: for each flag the value given, or \<open>None\<close> when
  the flag is absent and its default applies.
\<close>

record CommandLine =
  flag_method :: "string option"
  flag_local :: "string option"
  flag_remote :: "string option"
  flag_cert :: "string option"
  flag_insecure :: "bool option"
  flag_username :: "string option"
  flag_password :: "string option"
  flag_client_id :: "string option"
  flag_tenant_id :: "string option"
  flag_client_secret :: "string option"
  flag_webview :: "bool option"
  flag_authcode_addr :: "string option"
  flag_whenlog :: "string option"
  flag_whatlog :: "string option"
  flag_debugmode :: "bool option"

definition flag_Var :: "'a option \<Rightarrow> 'a \<Rightarrow> 'a" where
  "flag_Var given dflt = (case given of None \<Rightarrow> dflt | Some v \<Rightarrow> v)"

definition defaultLocalAddr :: string where
  "defaultLocalAddr = ''127.0.0.1:3100''"

definition flagAuthCodeWebview :: string where
  "flagAuthCodeWebview = ''authcode-webview''"

text \<open>
  What \<^verbatim>\<open>newProxyFromFlags\<close> takes from outside \<^verbatim>\<open>flags.go\<close>, as parameters: the four
  method names, which package \<^verbatim>\<open>proxy\<close> declares in a file that is not among the sources,
  \<^verbatim>\<open>runtime.GOOS\<close>, and the functions of package \<^verbatim>\<open>aad\<close> that compute the callback path and
  the endpoints (\<open>TokenEndpoint\<close> is \<^verbatim>\<open>aad.Endpoint(aad.EndpointToken, _)\<close>).
\<close>

record 'e externals =
  MethodBasicAuth :: string
  MethodOAuthAuthCode :: string
  MethodOAuthDeviceFlow :: string
  MethodOAuthClientCredentials :: string
  GOOS :: string
  CallbackPath :: "string \<Rightarrow> string"
  AuthCodeEndpoint :: "string \<Rightarrow> 'e"
  TokenEndpoint :: "string \<Rightarrow> 'e"
  DeviceFlowEndpoint :: "string \<Rightarrow> 'e"

text \<open>
  The provider chosen, with the fields the function fills in, in the order of the
  source: \<open>OAuthAuthCode\<close> has Endpoint, ClientID, ClientSecret, Scopes, RedirectURL,
  UseWebview, SvcAddr and ArgName; \<open>OAuthClientCredentials\<close> has ClientID, ClientSecret,
  TokenURL and Scopes; \<open>OAuthDeviceFlow\<close> has Endpoint, ClientID and Scopes; \<open>BasicAuth\<close>
  has Remote, Username and Password.
\<close>

datatype 'e ProviderConfig =
  OAuthAuthCode 'e string string "string list" string bool string string
| OAuthClientCredentials string string 'e "string list"
| OAuthDeviceFlow 'e string "string list"
| BasicAuth string string string

text \<open>\<^verbatim>\<open>checkStr\<close> exits the process on an empty string: \<open>False\<close> here.\<close>

fun checkStr :: "string list \<Rightarrow> bool" where
  "checkStr [] = True"
| "checkStr (s # ss) = (if s = [] then False else checkStr ss)"

text \<open>
  The result is \<open>None\<close> where the source calls \<^verbatim>\<open>os.Exit(-1)\<close>, and otherwise the
  parameters and the provider of the proxy returned.
\<close>

definition newProxyFromFlags ::
  "'e externals \<Rightarrow> CommandLine \<Rightarrow> (Params \<times> 'e ProviderConfig) option" where
  "newProxyFromFlags ext args =
     (let params = \<lparr>Local = flag_Var (flag_local args) defaultLocalAddr,
                    Remote = flag_Var (flag_remote args) [],
                    Method = flag_Var (flag_method args) (MethodBasicAuth ext),
                    CertPath = flag_Var (flag_cert args) [],
                    Insecure = flag_Var (flag_insecure args) False,
                    Whenlog = [], Whatlog = []\<rparr>;
          username = flag_Var (flag_username args) [];
          password = flag_Var (flag_password args) [];
          clientID = flag_Var (flag_client_id args) [];
          tenantID = flag_Var (flag_tenant_id args) [];
          clientSecret = flag_Var (flag_client_secret args) [];
          useWebview = flag_Var (flag_webview args) True;
          authSvcAddr = flag_Var (flag_authcode_addr args) defaultLocalAddr;
          whenlogstr = flag_Var (flag_whenlog args) LogWhenOnError;
          whatlogstr = flag_Var (flag_whatlog args) LogWhatBasic;
          debugmode = flag_Var (flag_debugmode args) False
      in if Method params \<notin> set [MethodBasicAuth ext, MethodOAuthAuthCode ext,
                                     MethodOAuthDeviceFlow ext, MethodOAuthClientCredentials ext]
         then None
         else if whenlogstr \<notin> set [LogWhenOnError, LogWhenOnNon200, LogWhenAlways] then None
         else if whatlogstr \<notin> set [LogWhatBasic, LogWhatDetailed] then None
         else
           (let params = (if debugmode
                          then params\<lparr>Whenlog := LogWhenAlways, Whatlog := LogWhatDetailed\<rparr>
                          else params);
                scopes = (if Method params = MethodOAuthClientCredentials ext
                          then [''https://graph.microsoft.com/.default'']
                          else [''offline_access'',
                                ''api://285286f5-b97b-4b45-ba35-92a74f35756a/basic'']);
                redirectURL = CallbackPath ext authSvcAddr;
                (redirectURL, useWebview) =
                  (if useWebview then
                     (if GOOS ext = ''windows''
                      then (''https://login.microsoftonline.com/common/oauth2/nativeclient'',
                            useWebview)
                      else if GOOS ext = ''darwin''
                      then (''urn:ietf:wg:oauth:2.0:oob'', useWebview)
                      else (redirectURL, False))
                   else (redirectURL, useWebview))
            in if \<not> checkStr [Local params, Remote params] then None
               else if Method params = MethodOAuthAuthCode ext then
                 (if \<not> checkStr [clientID, tenantID] then None
                  else Some (params,
                    OAuthAuthCode (AuthCodeEndpoint ext tenantID) clientID clientSecret scopes
                      redirectURL useWebview authSvcAddr flagAuthCodeWebview))
               else if Method params = MethodOAuthClientCredentials ext then
                 (if \<not> checkStr [clientID, clientSecret] then None
                  else Some (params,
                    OAuthClientCredentials clientID clientSecret (TokenEndpoint ext tenantID)
                      scopes))
               else if Method params = MethodOAuthDeviceFlow ext then
                 (if \<not> checkStr [clientID, tenantID] then None
                  else Some (params,
                    OAuthDeviceFlow (DeviceFlowEndpoint ext tenantID) clientID scopes))
               else
                 (if \<not> checkStr [Remote params, username, password] then None
                  else Some (params, BasicAuth (Remote params) username password))))"

section \<open>The paths through the handler\<close>

text \<open>
  Names for what the body of \<^verbatim>\<open>ServeHTTP\<close> computes on its way, used to state its
  properties. \<open>inbound_after\<close> is the inbound request as lines 79 to 86 leave it (body
  read, target rewritten); \<open>transport_request\<close> is the request handed to
  \<^verbatim>\<open>Client().Do\<close> with the store at that moment, or the error of line 95; \<open>outcome_of\<close>
  tells at which \<^verbatim>\<open>return\<close> the body ends: line 97, line 110, line 121 or 127 (with the
  line logged there), or the end of the function.
\<close>

definition inbound_after :: "Params \<Rightarrow> Request \<Rightarrow> Request" where
  "inbound_after params req =
     req\<lparr>req_Body := [], req_URL := rewrite_target params (req_URL req)\<rparr>"

definition transport_request ::
  "stdlib \<Rightarrow> Proxy \<Rightarrow> Request \<Rightarrow> heap \<Rightarrow> error + (Request \<times> heap)" where
  "transport_request lib p req hp =
     (case build_request lib (inbound_after (Params p) req) (req_Body req) hp of
        Inl err \<Rightarrow> Inl err
      | Inr (req1, hp1) \<Rightarrow> Inr (Modify (Provider p) (Params p) req1 hp1))"

datatype outcome =
  ConstructionError error
| TransportError error
| DecodeError string
| Completed Response bytes

definition outcome_of :: "stdlib \<Rightarrow> Proxy \<Rightarrow> Request \<Rightarrow> heap \<Rightarrow> outcome" where
  "outcome_of lib p req hp =
     (case transport_request lib p req hp of
        Inl err \<Rightarrow> ConstructionError err
      | Inr (req2, hp2) \<Rightarrow>
          (case Client_Do (Provider p) req2 hp2 of
             Inl err \<Rightarrow> TransportError err
           | Inr response \<Rightarrow>
               (case read_body lib response of
                  Inl line \<Rightarrow> DecodeError line
                | Inr body \<Rightarrow> Completed response body)))"

text \<open>The text the handler accumulates in lines 88 to 91 and in lines 135 to 139.\<close>

definition request_log :: "stdlib \<Rightarrow> Params \<Rightarrow> Request \<Rightarrow> string" where
  "request_log lib params req =
     Sprintln [''Requesting:'', req_Method req,
               URL_String lib (rewrite_target params (req_URL req))]
     @ (if string_ge (Whatlog params) LogWhatDetailed then req_Body req @ LF else [])"

definition response_log :: "Params \<Rightarrow> Response \<Rightarrow> bytes \<Rightarrow> string" where
  "response_log params response buf =
     Sprintln [''Response Status Code:'', Itoa (StatusCode response)]
     @ (if string_ge (Whatlog params) LogWhatDetailed then Sprintln [buf] else [])"

text \<open>The condition under which lines 148 to 155 clear \<^verbatim>\<open>logFlag\<close>.\<close>

definition suppressed :: "Params \<Rightarrow> Response \<Rightarrow> bool" where
  "suppressed params response =
     (Whenlog params = LogWhenOnError
      \<or> (Whenlog params = LogWhenOnNon200 \<and> StatusCode response = 200))"

section \<open>A small world to run the handler in\<close>

text \<open>
  Stand-ins for the standard library, a provider with its upstream server, and inbound
  requests, on which the definitions above can be evaluated. The stand-in for gzip
  accepts a stream that starts with the two magic bytes of gzip and ends with a zero
  byte, and returns what is between them. The provider adds an \<^verbatim>\<open>Authorization\<close> header;
  its upstream answers on one host only, by the path requested.
\<close>

definition example_parse :: "string \<Rightarrow> URL" where
  "example_parse url =
     (let rest = drop 3 (dropWhile (\<lambda>c. c \<noteq> CHR '':'') url)
      in \<lparr>Scheme = takeWhile (\<lambda>c. c \<noteq> CHR '':'') url,
          Host = takeWhile (\<lambda>c. c \<noteq> CHR ''/'') rest,
          Path = dropWhile (\<lambda>c. c \<noteq> CHR ''/'') rest,
          RawQuery = [], Fragment = []\<rparr>)"

definition example_lib :: stdlib where
  "example_lib =
     \<lparr>URL_String = (\<lambda>u. Scheme u @ ''://'' @ Host u @ Path u),
      NewRequest_URL = (\<lambda>method url.
        if CHR '' '' \<in> set url then Inl ''parse: invalid character in host name''
        else Inr (example_parse url)),
      gzip_NewReader = (\<lambda>b.
        if take 2 b = [CHR 0x1F, CHR 0x8B] then Inr (drop 2 b)
        else Inl ''gzip: invalid header''),
      ioutil_ReadAll = (\<lambda>z.
        if z \<noteq> [] \<and> last z = CHR 0x00 then Inr (butlast z)
        else Inl ''unexpected EOF'')\<rparr>"

definition gzip_hello :: bytes where
  "gzip_hello = [CHR 0x1F, CHR 0x8B] @ ''hello'' @ [CHR 0x00]"

definition example_provider :: Provider where
  "example_provider =
     \<lparr>Modify = (\<lambda>params req hp.
        (req, hp[req_Header req :=
                   (''Authorization'', [''Basic dXNlcjpwYXNz'']) # hp ! req_Header req])),
      Client_Do = (\<lambda>req hp.
        if Host (req_URL req) \<noteq> ''node.example.com:3200''
        then Inl ''dial tcp: lookup failed: no such host''
        else if Path (req_URL req) = ''/gz''
        then Inr \<lparr>StatusCode = 200, resp_Header = [(''Content-Encoding'', [''gzip''])],
                  resp_Body = gzip_hello\<rparr>
        else if Path (req_URL req) = ''/badgz''
        then Inr \<lparr>StatusCode = 200, resp_Header = [(''Content-Encoding'', [''gzip''])],
                  resp_Body = ''plain text''\<rparr>
        else if Path (req_URL req) = ''/missing''
        then Inr \<lparr>StatusCode = 404, resp_Header = [], resp_Body = ''not found''\<rparr>
        else Inr \<lparr>StatusCode = 200, resp_Header = [(''Content-Type'', [''text/plain''])],
                  resp_Body = ''ok''\<rparr>)\<rparr>"

definition example_params :: "string \<Rightarrow> string \<Rightarrow> Params" where
  "example_params whenlog whatlog =
     \<lparr>Local = ''127.0.0.1:3100'', Remote = ''node.example.com:3200'', Method = ''basic'',
      CertPath = [], Insecure = False, Whenlog = whenlog, Whatlog = whatlog\<rparr>"

definition example_proxy :: "Params \<Rightarrow> Proxy" where
  "example_proxy params = \<lparr>Params = params, Provider = example_provider\<rparr>"

definition example_request :: "string \<Rightarrow> Request" where
  "example_request path =
     \<lparr>req_Method = ''POST'',
      req_URL = \<lparr>Scheme = [], Host = [], Path = path, RawQuery = [], Fragment = []\<rparr>,
      req_Header = 0, req_ContentLength = 7, req_Body = ''payload'',
      req_Host = ''127.0.0.1:3100''\<rparr>"

definition example_heap :: heap where
  "example_heap = [[(''Content-Type'', [''application/json''])]]"

definition example_writer :: ResponseWriter where
  "example_writer = \<lparr>rw_Header = [], calls = [], write_error = None\<rparr>"

definition broken_writer :: ResponseWriter where
  "broken_writer = \<lparr>rw_Header = [], calls = [], write_error = Some ''write: broken pipe''\<rparr>"

definition example_externals :: "string externals" where
  "example_externals =
     \<lparr>MethodBasicAuth = ''basic'', MethodOAuthAuthCode = ''authcode'',
      MethodOAuthDeviceFlow = ''device'', MethodOAuthClientCredentials = ''client'',
      GOOS = ''linux'',
      CallbackPath = (\<lambda>addr. ''http://'' @ addr @ ''/_callback''),
      AuthCodeEndpoint = (\<lambda>tenant. tenant @ ''/oauth2/v2.0/authorize''),
      TokenEndpoint = (\<lambda>tenant. tenant @ ''/oauth2/v2.0/token''),
      DeviceFlowEndpoint = (\<lambda>tenant. tenant @ ''/oauth2/v2.0/devicecode'')\<rparr>"

definition example_args :: CommandLine where
  "example_args =
     \<lparr>flag_method = None, flag_local = None, flag_remote = Some ''node.example.com:3200'',
      flag_cert = None, flag_insecure = None,
      flag_username = Some ''user'', flag_password = Some ''pass'',
      flag_client_id = None, flag_tenant_id = None, flag_client_secret = None,
      flag_webview = None, flag_authcode_addr = None,
      flag_whenlog = Some ''onNon200'', flag_whatlog = Some ''detailed'',
      flag_debugmode = None\<rparr>"

text \<open>
  Two more stand-ins: a provider that modifies requests as \<open>example_provider\<close> does and
  whose client answers every request alike, and a library that builds a request for one
  URL text only.
\<close>

definition example_constant_provider :: Provider where
  "example_constant_provider =
     \<lparr>Modify = Modify example_provider,
      Client_Do = (\<lambda>req hp.
        Inr \<lparr>StatusCode = 200, resp_Header = [(''Content-Type'', [''text/plain''])],
              resp_Body = ''ok''\<rparr>)\<rparr>"

definition example_pinned_lib :: stdlib where
  "example_pinned_lib =
     example_lib\<lparr>NewRequest_URL := (\<lambda>method url.
       if url = ''https://node.example.com:3200/bar''
       then Inr \<lparr>Scheme = ''https'', Host = ''node.example.com:3200'', Path = ''/bar'',
                 RawQuery = [], Fragment = []\<rparr>
       else Inl ''parse: unknown URL'')\<rparr>"

section \<open>The result of the handler, path by path\<close>

lemma serve_construction_error:
  assumes "build_request lib (inbound_after (Params p) (c_req c)) (req_Body (c_req c)) (c_store c)
             = Inl err"
  shows "serve lib p c =
     c\<lparr>c_req := inbound_after (Params p) (c_req c),
       logStrBuilder := logStrBuilder c @ request_log lib (Params p) (c_req c)
         @ Sprintln [''Error when make transport request:'' @ LF, err]\<rparr>"
  using assms
  by (simp add: serve_def inbound_after_def request_log_def WriteString_def Let_def)

lemma serve_transport_error:
  assumes "build_request lib (inbound_after (Params p) (c_req c)) (req_Body (c_req c)) (c_store c)
             = Inr (req1, hp1)"
    and "Modify (Provider p) (Params p) req1 hp1 = (req2, hp2)"
    and "Client_Do (Provider p) req2 hp2 = Inl err"
  shows "serve lib p c =
     c\<lparr>c_req := inbound_after (Params p) (c_req c), c_store := hp2,
       logStrBuilder := logStrBuilder c @ request_log lib (Params p) (c_req c)
         @ Sprintln [''Error when send the transport request:'' @ LF, err]\<rparr>"
  using assms
  by (simp add: serve_def inbound_after_def request_log_def WriteString_def Let_def)

lemma serve_decode_error:
  assumes "build_request lib (inbound_after (Params p) (c_req c)) (req_Body (c_req c)) (c_store c)
             = Inr (req1, hp1)"
    and "Modify (Provider p) (Params p) req1 hp1 = (req2, hp2)"
    and "Client_Do (Provider p) req2 hp2 = Inr response"
    and "read_body lib response = Inl line"
  shows "serve lib p c =
     c\<lparr>c_req := inbound_after (Params p) (c_req c), c_store := hp2,
       logStrBuilder := logStrBuilder c @ request_log lib (Params p) (c_req c) @ line\<rparr>"
  using assms
  by (simp add: serve_def inbound_after_def request_log_def WriteString_def Let_def)

lemma respond_result:
  "respond params response buf c =
     c\<lparr>c_rw := (c_rw c)\<lparr>calls := calls (c_rw c) @ [WriteHeader (StatusCode response), Write buf]\<rparr>,
       completeFlag := True,
       logFlag := logFlag c \<and> \<not> suppressed params response,
       logStrBuilder := logStrBuilder c @ response_log params response buf\<rparr>"
  by (simp add: respond_def response_log_def suppressed_def WriteString_def
      rw_WriteHeader_def rw_Write_def Let_def)

lemma serve_completed:
  assumes "build_request lib (inbound_after (Params p) (c_req c)) (req_Body (c_req c)) (c_store c)
             = Inr (req1, hp1)"
    and "Modify (Provider p) (Params p) req1 hp1 = (req2, hp2)"
    and "Client_Do (Provider p) req2 hp2 = Inr response"
    and "read_body lib response = Inr body"
  shows "serve lib p c =
     c\<lparr>c_rw := (c_rw c)\<lparr>calls := calls (c_rw c) @ [WriteHeader (StatusCode response), Write body]\<rparr>,
       c_req := inbound_after (Params p) (c_req c), c_store := hp2,
       completeFlag := True,
       logFlag := logFlag c \<and> \<not> suppressed (Params p) response,
       logStrBuilder := logStrBuilder c @ request_log lib (Params p) (c_req c)
         @ response_log (Params p) response body\<rparr>"
  using assms
  by (simp add: serve_def inbound_after_def request_log_def WriteString_def Let_def
      respond_result)

lemma serve_result:
  "serve lib p c =
     c\<lparr>c_rw := (case outcome_of lib p (c_req c) (c_store c) of
                 Completed response body \<Rightarrow>
                   (c_rw c)\<lparr>calls := calls (c_rw c)
                              @ [WriteHeader (StatusCode response), Write body]\<rparr>
               | _ \<Rightarrow> c_rw c),
       c_req := inbound_after (Params p) (c_req c),
       c_store := (case transport_request lib p (c_req c) (c_store c) of
                     Inl err \<Rightarrow> c_store c
                   | Inr (req2, hp2) \<Rightarrow> hp2),
       completeFlag := (case outcome_of lib p (c_req c) (c_store c) of
                          Completed response body \<Rightarrow> True
                        | _ \<Rightarrow> completeFlag c),
       logFlag := (case outcome_of lib p (c_req c) (c_store c) of
                     Completed response body \<Rightarrow> logFlag c \<and> \<not> suppressed (Params p) response
                   | _ \<Rightarrow> logFlag c),
       logStrBuilder := logStrBuilder c @ request_log lib (Params p) (c_req c)
         @ (case outcome_of lib p (c_req c) (c_store c) of
              ConstructionError err \<Rightarrow>
                Sprintln [''Error when make transport request:'' @ LF, err]
            | TransportError err \<Rightarrow>
                Sprintln [''Error when send the transport request:'' @ LF, err]
            | DecodeError line \<Rightarrow> line
            | Completed response body \<Rightarrow> response_log (Params p) response body)\<rparr>"
proof (cases "build_request lib (inbound_after (Params p) (c_req c)) (req_Body (c_req c))
                (c_store c)")
  case (Inl err)
  then show ?thesis
    by (simp add: serve_construction_error outcome_of_def transport_request_def)
next
  case (Inr built)
  obtain req1 hp1 where built: "built = (req1, hp1)" by (cases built)
  obtain req2 hp2 where modified: "Modify (Provider p) (Params p) req1 hp1 = (req2, hp2)"
    by (cases "Modify (Provider p) (Params p) req1 hp1")
  note b = Inr [unfolded built]
  show ?thesis
  proof (cases "Client_Do (Provider p) req2 hp2")
    case (Inl err)
    with b modified show ?thesis
      by (simp add: serve_transport_error [OF b modified Inl] outcome_of_def
          transport_request_def)
  next
    case do: (Inr response)
    show ?thesis
    proof (cases "read_body lib response")
      case (Inl line)
      with b modified do show ?thesis
        by (simp add: serve_decode_error [OF b modified do Inl] outcome_of_def
            transport_request_def)
    next
      case (Inr body)
      with b modified do show ?thesis
        by (simp add: serve_completed [OF b modified do Inr] outcome_of_def
            transport_request_def)
    qed
  qed
qed

lemma ServeHTTP_completeFlag:
  "completeFlag (ServeHTTP lib p w r hp out) =
     (case outcome_of lib p r hp of Completed response body \<Rightarrow> True | _ \<Rightarrow> False)"
  by (simp add: ServeHTTP_def serve_result enter_def deferred_log_def deferred_guard_def
      split: outcome.split sum.split)

lemma ServeHTTP_rw:
  "c_rw (ServeHTTP lib p w r hp out) =
     (case outcome_of lib p r hp of
        Completed response body \<Rightarrow>
          w\<lparr>calls := calls w @ [WriteHeader (StatusCode response), Write body]\<rparr>
      | _ \<Rightarrow> w\<lparr>calls := calls w @ [WriteHeader 502]\<rparr>)"
  by (simp add: ServeHTTP_def serve_result enter_def deferred_log_def deferred_guard_def
      rw_WriteHeader_def split: outcome.split sum.split)

lemma ServeHTTP_req:
  "c_req (ServeHTTP lib p w r hp out) = inbound_after (Params p) r"
  by (simp add: ServeHTTP_def serve_result enter_def deferred_log_def deferred_guard_def
      split: outcome.split sum.split)

lemma ServeHTTP_store:
  "c_store (ServeHTTP lib p w r hp out) =
     (case transport_request lib p r hp of Inl err \<Rightarrow> hp | Inr (req2, hp2) \<Rightarrow> hp2)"
  by (simp add: ServeHTTP_def serve_result enter_def deferred_log_def deferred_guard_def
      split: outcome.split sum.split)

lemma ServeHTTP_logFlag:
  "logFlag (ServeHTTP lib p w r hp out) =
     (case outcome_of lib p r hp of
        Completed response body \<Rightarrow> \<not> suppressed (Params p) response
      | _ \<Rightarrow> True)"
  by (simp add: ServeHTTP_def serve_result enter_def deferred_log_def deferred_guard_def
      split: outcome.split sum.split)

lemma ServeHTTP_logStrBuilder:
  "logStrBuilder (ServeHTTP lib p w r hp out) =
     request_log lib (Params p) r
     @ (case outcome_of lib p r hp of
          ConstructionError err \<Rightarrow> Sprintln [''Error when make transport request:'' @ LF, err]
        | TransportError err \<Rightarrow>
            Sprintln [''Error when send the transport request:'' @ LF, err]
        | DecodeError line \<Rightarrow> line
        | Completed response body \<Rightarrow> response_log (Params p) response body)"
  by (simp add: ServeHTTP_def serve_result enter_def deferred_log_def deferred_guard_def
      split: outcome.split sum.split)

lemma ServeHTTP_stdout:
  "c_stdout (ServeHTTP lib p w r hp out) =
     out @ (if logFlag (ServeHTTP lib p w r hp out)
            then [Sprintln [logStrBuilder (ServeHTTP lib p w r hp out)]] else [])"
  by (simp add: ServeHTTP_def serve_result enter_def deferred_log_def deferred_guard_def
      split: outcome.split sum.split)

section \<open>Facts about the examples\<close>

lemmas example_defs =
  example_parse_def example_lib_def example_provider_def example_params_def example_proxy_def
  example_request_def example_heap_def example_writer_def broken_writer_def

lemmas path_defs =
  outcome_of_def transport_request_def build_request_def http_NewRequest_def make_Header_def
  inbound_after_def rewrite_target_def read_body_def Header_Get_def

lemmas loopback_defs = isLoopbackAddr_def SplitHostPort_def slice_def addrErr_def

lemmas policy_defs =
  LogWhenOnError_def LogWhenOnNon200_def LogWhenAlways_def LogWhatBasic_def LogWhatDetailed_def

lemma example_proxy_fields:
  "Params (example_proxy params) = params"
  "Provider (example_proxy params) = example_provider"
  by (simp_all add: example_proxy_def)

lemma example_params_fields:
  "Whenlog (example_params x y) = x"
  "Whatlog (example_params x y) = y"
  "Remote (example_params x y) = ''node.example.com:3200''"
  by (simp_all add: example_params_def)

lemma example_remote_not_loopback: "\<not> isLoopbackAddr ''node.example.com:3200''"
  by (simp add: loopback_defs)

lemma Itoa_200: "Itoa 200 = ''200''"
  by (simp add: Itoa_def nat_digits.simps digit_def)

lemma Itoa_404: "Itoa 404 = ''404''"
  by (simp add: Itoa_def nat_digits.simps digit_def)

lemma example_transport_request:
  "path \<in> {''/bar'', ''/gz'', ''/badgz'', ''/missing''} \<Longrightarrow>
   transport_request example_lib (example_proxy (example_params x y)) (example_request path)
     example_heap =
   Inr (\<lparr>req_Method = ''POST'',
          req_URL = \<lparr>Scheme = ''https'', Host = ''node.example.com:3200'',
                      Path = path, RawQuery = [], Fragment = []\<rparr>,
          req_Header = 0, req_ContentLength = 7, req_Body = ''payload'',
          req_Host = ''node.example.com:3200''\<rparr>,
        [[(''Authorization'', [''Basic dXNlcjpwYXNz'']),
          (''Content-Type'', [''application/json''])], []])"
  by (auto simp: example_defs path_defs example_remote_not_loopback Let_def)

lemma example_Client_Do:
  "Client_Do example_provider
     \<lparr>req_Method = ''POST'',
       req_URL = \<lparr>Scheme = ''https'', Host = ''node.example.com:3200'',
                   Path = path, RawQuery = [], Fragment = []\<rparr>,
       req_Header = 0, req_ContentLength = 7, req_Body = ''payload'',
       req_Host = ''node.example.com:3200''\<rparr> hp =
   (if path = ''/gz''
    then Inr \<lparr>StatusCode = 200, resp_Header = [(''Content-Encoding'', [''gzip''])],
              resp_Body = gzip_hello\<rparr>
    else if path = ''/badgz''
    then Inr \<lparr>StatusCode = 200, resp_Header = [(''Content-Encoding'', [''gzip''])],
              resp_Body = ''plain text''\<rparr>
    else if path = ''/missing''
    then Inr \<lparr>StatusCode = 404, resp_Header = [], resp_Body = ''not found''\<rparr>
    else Inr \<lparr>StatusCode = 200, resp_Header = [(''Content-Type'', [''text/plain''])],
              resp_Body = ''ok''\<rparr>)"
  by (simp add: example_provider_def)

lemma example_read_body_gzip:
  "read_body example_lib
     \<lparr>StatusCode = 200, resp_Header = [(''Content-Encoding'', [''gzip''])],
       resp_Body = gzip_hello\<rparr> = Inr ''hello''"
  by (simp add: read_body_def Header_Get_def example_lib_def gzip_hello_def)

lemma example_read_body_bad_gzip:
  "read_body example_lib
     \<lparr>StatusCode = 200, resp_Header = [(''Content-Encoding'', [''gzip''])],
       resp_Body = ''plain text''\<rparr> =
   Inl (Sprintln [''Error while decoding gzip data:'' @ LF, ''gzip: invalid header''])"
  by (simp add: read_body_def Header_Get_def example_lib_def)

lemma example_read_body_plain:
  "read_body example_lib \<lparr>StatusCode = sc, resp_Header = [], resp_Body = b\<rparr> = Inr b"
  "read_body example_lib
     \<lparr>StatusCode = sc, resp_Header = [(''Content-Type'', [''text/plain''])], resp_Body = b\<rparr>
   = Inr b"
  by (simp_all add: read_body_def Header_Get_def)

lemma example_build_request:
  "build_request example_lib
     (inbound_after (example_params x y) (example_request ''/bar''))
     (req_Body (example_request ''/bar'')) example_heap =
   Inr (\<lparr>req_Method = ''POST'',
          req_URL = \<lparr>Scheme = ''https'', Host = ''node.example.com:3200'',
                      Path = ''/bar'', RawQuery = [], Fragment = []\<rparr>,
          req_Header = 0, req_ContentLength = 7, req_Body = ''payload'',
          req_Host = ''node.example.com:3200''\<rparr>,
        [[(''Content-Type'', [''application/json''])], []])"
  by (simp add: example_defs path_defs example_remote_not_loopback Let_def)

lemma example_outcome_ok:
  "outcome_of example_lib (example_proxy (example_params x y)) (example_request ''/bar'')
     example_heap =
   Completed \<lparr>StatusCode = 200, resp_Header = [(''Content-Type'', [''text/plain''])],
               resp_Body = ''ok''\<rparr> ''ok''"
  by (simp add: outcome_of_def example_transport_request example_proxy_fields
      example_Client_Do example_read_body_plain)

lemma example_outcome_missing:
  "outcome_of example_lib (example_proxy (example_params x y)) (example_request ''/missing'')
     example_heap =
   Completed \<lparr>StatusCode = 404, resp_Header = [], resp_Body = ''not found''\<rparr> ''not found''"
  by (simp add: outcome_of_def example_transport_request example_proxy_fields
      example_Client_Do example_read_body_plain)

lemma example_outcome_gzip:
  "outcome_of example_lib (example_proxy (example_params x y)) (example_request ''/gz'')
     example_heap =
   Completed \<lparr>StatusCode = 200, resp_Header = [(''Content-Encoding'', [''gzip''])],
               resp_Body = gzip_hello\<rparr> ''hello''"
  by (simp add: outcome_of_def example_transport_request example_proxy_fields
      example_Client_Do example_read_body_gzip)

lemma example_outcome_bad_gzip:
  "outcome_of example_lib (example_proxy (example_params x y)) (example_request ''/badgz'')
     example_heap =
   DecodeError (Sprintln [''Error while decoding gzip data:'' @ LF, ''gzip: invalid header''])"
  by (simp add: outcome_of_def example_transport_request example_proxy_fields
      example_Client_Do example_read_body_bad_gzip)

lemma example_outcome_down:
  "outcome_of example_lib (example_proxy ((example_params x y)\<lparr>Remote := ''down.example.com:443''\<rparr>))
     (example_request ''/bar'') example_heap =
   TransportError ''dial tcp: lookup failed: no such host''"
  by (simp add: example_defs path_defs loopback_defs Let_def)

lemma example_outcome_bad_remote:
  "outcome_of example_lib (example_proxy ((example_params x y)\<lparr>Remote := ''bad host''\<rparr>))
     (example_request ''/bar'') example_heap =
   ConstructionError ''parse: invalid character in host name''"
  by (simp add: example_defs path_defs loopback_defs Let_def)

lemma example_request_log:
  "request_log example_lib (example_params x y) (example_request path) =
     ''Requesting: POST https://node.example.com:3200'' @ path @ LF
     @ (if string_ge y LogWhatDetailed then ''payload'' @ LF else [])"
  by (simp add: request_log_def Sprintln_def rewrite_target_def example_remote_not_loopback
      example_lib_def example_params_def example_request_def Let_def)

section \<open>The loopback classifier: properties\<close>

lemma SplitHostPort_error_host:
  "SplitHostPort addr = (host, port, Some e) \<Longrightarrow> host = [] \<and> port = []"
  by (auto simp: SplitHostPort_def addrErr_def Let_def split: if_splits)

lemma host_in_set: "host_in hs h = (h \<in> set hs)"
  by (induction hs) auto

lemma IndexByteString_neg: "(IndexByteString s c < 0) = (c \<notin> set s)"
  by (induction s) (auto simp: Let_def)

lemma LastIndexByteString_neg: "(LastIndexByteString s c < 0) = (c \<notin> set s)"
  by (induction s) (auto simp: Let_def)

lemma IndexByteString_nonneg: "(0 \<le> IndexByteString s c) = (c \<in> set s)"
  using IndexByteString_neg [of s c] by auto

lemma LastIndexByteString_nonneg: "(0 \<le> LastIndexByteString s c) = (c \<in> set s)"
  using LastIndexByteString_neg [of s c] by auto

lemma IndexByteString_append:
  "c \<notin> set xs \<Longrightarrow> IndexByteString (xs @ c # ys) c = int (length xs)"
  by (induction xs) (auto simp: Let_def)

lemma LastIndexByteString_append:
  "c \<notin> set ys \<Longrightarrow> LastIndexByteString (xs @ c # ys) c = int (length xs)"
  by (induction xs) (auto simp: Let_def LastIndexByteString_nonneg)

lemma IndexByteString_split:
  "0 \<le> IndexByteString s c \<Longrightarrow>
   \<exists>xs ys. s = xs @ c # ys \<and> c \<notin> set xs \<and> IndexByteString s c = int (length xs)"
proof (induction s)
  case Nil
  then show ?case by simp
next
  case (Cons x s)
  show ?case
  proof (cases "x = c")
    case True
    then have "x # s = [] @ c # s \<and> c \<notin> set [] \<and> IndexByteString (x # s) c = int (length ([]::string))"
      by simp
    then show ?thesis by blast
  next
    case False
    with Cons.prems have "0 \<le> IndexByteString s c"
      by (auto simp: Let_def split: if_splits)
    with Cons.IH obtain xs ys where "s = xs @ c # ys" "c \<notin> set xs"
        "IndexByteString s c = int (length xs)"
      by blast
    with False have "x # s = (x # xs) @ c # ys \<and> c \<notin> set (x # xs)
        \<and> IndexByteString (x # s) c = int (length (x # xs))"
      by (auto simp: Let_def)
    then show ?thesis by blast
  qed
qed

lemma LastIndexByteString_split:
  "0 \<le> LastIndexByteString s c \<Longrightarrow>
   \<exists>xs ys. s = xs @ c # ys \<and> c \<notin> set ys \<and> LastIndexByteString s c = int (length xs)"
proof (induction s)
  case Nil
  then show ?case by simp
next
  case (Cons x s)
  show ?case
  proof (cases "0 \<le> LastIndexByteString s c")
    case True
    with Cons.IH obtain xs ys where "s = xs @ c # ys" "c \<notin> set ys"
        "LastIndexByteString s c = int (length xs)"
      by blast
    with True have "x # s = (x # xs) @ c # ys \<and> c \<notin> set ys
        \<and> LastIndexByteString (x # s) c = int (length (x # xs))"
      by (auto simp: Let_def)
    then show ?thesis by blast
  next
    case False
    with Cons.prems have "x = c"
      by (auto simp: Let_def split: if_splits)
    moreover from False have "c \<notin> set s"
      by (simp add: LastIndexByteString_nonneg)
    ultimately have "x # s = [] @ c # s \<and> c \<notin> set s
        \<and> LastIndexByteString (x # s) c = int (length ([]::string))"
      using False by (simp add: Let_def)
    then show ?thesis by blast
  qed
qed

text \<open>What \<^verbatim>\<open>net.SplitHostPort\<close> accepts, and what it returns then.\<close>

lemma SplitHostPort_plain:
  assumes "CHR '':'' \<notin> set host" "CHR '':'' \<notin> set port"
    and "CHR ''['' \<notin> set host" "CHR ''['' \<notin> set port"
    and "CHR '']'' \<notin> set host" "CHR '']'' \<notin> set port"
  shows "SplitHostPort (host @ CHR '':'' # port) = (host, port, None)"
proof -
  have i: "LastIndexByteString (host @ CHR '':'' # port) (CHR '':'') = int (length host)"
    using assms by (simp add: LastIndexByteString_append)
  have first: "take 1 (host @ CHR '':'' # port) \<noteq> ''[''"
    using assms(3) by (cases host) auto
  have nocolon: "\<not> 0 \<le> IndexByteString host (CHR '':'')"
    using assms(1) by (simp add: IndexByteString_nonneg)
  have noopen: "\<not> 0 \<le> IndexByteString (host @ CHR '':'' # port) (CHR ''['')"
    using assms by (simp add: IndexByteString_nonneg del: IndexByteString.simps)
  have noclose: "\<not> 0 \<le> IndexByteString (host @ CHR '':'' # port) (CHR '']'')"
    using assms by (simp add: IndexByteString_nonneg del: IndexByteString.simps)
  show ?thesis
    using first nocolon noopen noclose
    by (simp add: SplitHostPort_def i slice_def Let_def nat_add_distrib)
qed

lemma SplitHostPort_bracket:
  assumes "CHR '']'' \<notin> set host" "CHR '':'' \<notin> set port"
    and "CHR ''['' \<notin> set host" "CHR ''['' \<notin> set port" "CHR '']'' \<notin> set port"
  shows "SplitHostPort (CHR ''['' # host @ CHR '']'' # CHR '':'' # port) = (host, port, None)"
proof -
  let ?a = "CHR ''['' # host @ CHR '']'' # CHR '':'' # port"
  have "?a = (CHR ''['' # host @ '']'') @ CHR '':'' # port" by simp
  then have i: "LastIndexByteString ?a (CHR '':'') = int (length host) + 2"
    using assms(2) LastIndexByteString_append [of "CHR '':''" port "CHR ''['' # host @ '']''"]
    by simp
  have "?a = (CHR ''['' # host) @ CHR '']'' # (CHR '':'' # port)" by simp
  then have e: "IndexByteString ?a (CHR '']'') = int (length host) + 1"
    using assms(1) IndexByteString_append [of "CHR '']''" "CHR ''['' # host" "CHR '':'' # port"]
    by simp
  have noopen: "\<not> 0 \<le> IndexByteString (host @ CHR '']'' # CHR '':'' # port) (CHR ''['')"
    using assms by (simp add: IndexByteString_nonneg del: IndexByteString.simps)
  have noclose: "\<not> 0 \<le> IndexByteString (CHR '':'' # port) (CHR '']'')"
    using assms by (simp add: IndexByteString_nonneg del: IndexByteString.simps)
  have d: "drop (nat (int (length host) + 2)) (host @ CHR '']'' # CHR '':'' # port) = port"
    "drop (nat (int (length host) + 1)) (host @ CHR '']'' # CHR '':'' # port) = CHR '':'' # port"
    by (simp_all add: nat_add_distrib)
  have d3: "drop (3 + length host) ?a = port"
    by (simp add: numeral_3_eq_3)
  show ?thesis
    unfolding SplitHostPort_def Let_def i e
    using noopen noclose d d3
    by (simp add: slice_def nat_add_distrib
        del: IndexByteString.simps LastIndexByteString.simps)
qed

lemma SplitHostPort_success:
  assumes "SplitHostPort a = (h, p, None)"
  shows "(a = h @ CHR '':'' # p \<and> CHR '':'' \<notin> set h \<and> CHR '':'' \<notin> set p
           \<and> CHR ''['' \<notin> set h \<and> CHR ''['' \<notin> set p
           \<and> CHR '']'' \<notin> set h \<and> CHR '']'' \<notin> set p)
         \<or> (a = CHR ''['' # h @ CHR '']'' # CHR '':'' # p
           \<and> CHR '']'' \<notin> set h \<and> CHR '':'' \<notin> set p
           \<and> CHR ''['' \<notin> set h \<and> CHR ''['' \<notin> set p \<and> CHR '']'' \<notin> set p)"
proof -
  let ?i = "LastIndexByteString a (CHR '':'')"
  have i0: "0 \<le> ?i"
    using assms by (auto simp: SplitHostPort_def addrErr_def Let_def split: if_splits)
  then obtain xs ys where a: "a = xs @ CHR '':'' # ys" and ys: "CHR '':'' \<notin> set ys"
    and i: "?i = int (length xs)"
    using LastIndexByteString_split [of a "CHR '':''"] by blast
  have port: "drop (nat (?i + 1)) a = ys"
    unfolding i by (simp add: a nat_add_distrib)
  show ?thesis
  proof (cases "take 1 a = ''[''")
    case False
    with assms i0 have host: "h = slice a 0 ?i" and p: "p = drop (nat (?i + 1)) a"
      and nocolon: "\<not> 0 \<le> IndexByteString (slice a 0 ?i) (CHR '':'')"
      and noopen: "\<not> 0 \<le> IndexByteString a (CHR ''['')"
      and noclose: "\<not> 0 \<le> IndexByteString a (CHR '']'')"
      by (auto simp: SplitHostPort_def addrErr_def Let_def split: if_splits)
    have h: "h = xs"
      unfolding host i by (simp add: slice_def a)
    from noopen noclose have "CHR ''['' \<notin> set a" "CHR '']'' \<notin> set a"
      by (simp_all add: IndexByteString_nonneg)
    with nocolon host h p port ys a show ?thesis
      by (auto simp: IndexByteString_nonneg)
  next
    case True
    let ?e = "IndexByteString a (CHR '']'')"
    from True assms i0 have e0: "0 \<le> ?e" and ei: "?e + 1 = ?i"
      and host: "h = slice a 1 ?e" and p: "p = drop (nat (?i + 1)) a"
      and noopen: "\<not> 0 \<le> IndexByteString (drop 1 a) (CHR ''['')"
      and noclose: "\<not> 0 \<le> IndexByteString (drop (nat (?e + 1)) a) (CHR '']'')"
      by (auto simp: SplitHostPort_def addrErr_def Let_def split: if_splits)
    from e0 obtain us vs where a': "a = us @ CHR '']'' # vs" and us: "CHR '']'' \<notin> set us"
      and e: "?e = int (length us)"
      using IndexByteString_split [of a "CHR '']''"] by blast
    from ei i e have len: "length xs = Suc (length us)" by simp
    from a a' have "xs @ CHR '':'' # ys = us @ CHR '']'' # vs" by simp
    moreover from len obtain u x where u: "xs = u @ [x]" and "length u = length us"
      by (cases xs rule: rev_cases) auto
    ultimately have "u = us \<and> x # CHR '':'' # ys = CHR '']'' # vs"
      by simp
    with u have xs: "xs = us @ '']''" and vs: "vs = CHR '':'' # ys"
      by simp_all
    from True a' us obtain hs where us': "us = CHR ''['' # hs"
      by (cases us) auto
    have h: "h = hs"
      unfolding host e by (simp add: slice_def a' us')
    have shape: "a = CHR ''['' # hs @ CHR '']'' # CHR '':'' # ys"
      by (simp add: a' us' vs)
    from noopen have "CHR ''['' \<notin> set hs" "CHR ''['' \<notin> set ys"
      by (simp_all add: IndexByteString_nonneg shape)
    moreover have "drop (nat (?e + 1)) a = CHR '':'' # ys"
      unfolding e by (simp add: a' vs nat_add_distrib)
    with noclose have "CHR '']'' \<notin> set ys"
      by (simp add: IndexByteString_nonneg del: IndexByteString.simps)
    moreover from us us' have "CHR '']'' \<notin> set hs" by simp
    ultimately show ?thesis
      using shape h p port ys by simp
  qed
qed

lemma SplitHostPort_None_iff:
  "SplitHostPort a = (h, p, None) \<longleftrightarrow>
     (a = h @ CHR '':'' # p \<and> CHR '':'' \<notin> set h \<and> CHR '':'' \<notin> set p
        \<and> CHR ''['' \<notin> set h \<and> CHR ''['' \<notin> set p
        \<and> CHR '']'' \<notin> set h \<and> CHR '']'' \<notin> set p)
     \<or> (a = CHR ''['' # h @ CHR '']'' # CHR '':'' # p
        \<and> CHR '']'' \<notin> set h \<and> CHR '':'' \<notin> set p
        \<and> CHR ''['' \<notin> set h \<and> CHR ''['' \<notin> set p \<and> CHR '']'' \<notin> set p)"
  using SplitHostPort_success [of a h p] SplitHostPort_plain [of h p]
    SplitHostPort_bracket [of h p]
  by blast

lemma isLoopbackAddr_iff_split:
  "isLoopbackAddr a \<longleftrightarrow>
     (\<exists>h p. SplitHostPort a = (h, p, None) \<and> h \<in> {''localhost'', ''127.0.0.1'', ''::1''})"
proof (cases "SplitHostPort a")
  case (fields host port err)
  show ?thesis
  proof (cases err)
    case None
    with fields show ?thesis by (simp add: isLoopbackAddr_def host_in_set)
  next
    case (Some e)
    with fields SplitHostPort_error_host [of a host port e] show ?thesis
      by (simp add: isLoopbackAddr_def)
  qed
qed

lemma isLoopbackAddr_addresses:
  "isLoopbackAddr a \<longleftrightarrow>
     (\<exists>port. CHR '':'' \<notin> set port \<and> CHR ''['' \<notin> set port \<and> CHR '']'' \<notin> set port
        \<and> a \<in> {''localhost:'' @ port, ''127.0.0.1:'' @ port, ''[localhost]:'' @ port,
                 ''[127.0.0.1]:'' @ port, ''[::1]:'' @ port})"
proof
  assume "isLoopbackAddr a"
  then obtain h p where split: "SplitHostPort a = (h, p, None)"
    and h: "h \<in> {''localhost'', ''127.0.0.1'', ''::1''}"
    unfolding isLoopbackAddr_iff_split by blast
  from SplitHostPort_success [OF split]
  consider (plain) "a = h @ CHR '':'' # p" "CHR '':'' \<notin> set h"
      "CHR '':'' \<notin> set p" "CHR ''['' \<notin> set p" "CHR '']'' \<notin> set p"
    | (bracket) "a = CHR ''['' # h @ CHR '']'' # CHR '':'' # p"
      "CHR '':'' \<notin> set p" "CHR ''['' \<notin> set p" "CHR '']'' \<notin> set p"
    by blast
  then have "CHR '':'' \<notin> set p \<and> CHR ''['' \<notin> set p \<and> CHR '']'' \<notin> set p
        \<and> a \<in> {''localhost:'' @ p, ''127.0.0.1:'' @ p, ''[localhost]:'' @ p,
                 ''[127.0.0.1]:'' @ p, ''[::1]:'' @ p}"
  proof cases
    case plain
    from h plain show ?thesis
      by (elim insertE emptyE; simp)
  next
    case bracket
    from h bracket show ?thesis
      by (elim insertE emptyE; simp)
  qed
  then show "\<exists>port. CHR '':'' \<notin> set port \<and> CHR ''['' \<notin> set port \<and> CHR '']'' \<notin> set port
        \<and> a \<in> {''localhost:'' @ port, ''127.0.0.1:'' @ port, ''[localhost]:'' @ port,
                 ''[127.0.0.1]:'' @ port, ''[::1]:'' @ port}"
    by (rule exI)
next
  assume "\<exists>port. CHR '':'' \<notin> set port \<and> CHR ''['' \<notin> set port \<and> CHR '']'' \<notin> set port
        \<and> a \<in> {''localhost:'' @ port, ''127.0.0.1:'' @ port, ''[localhost]:'' @ port,
                 ''[127.0.0.1]:'' @ port, ''[::1]:'' @ port}"
  then obtain port where port: "CHR '':'' \<notin> set port" "CHR ''['' \<notin> set port"
      "CHR '']'' \<notin> set port"
    and a: "a \<in> {''localhost:'' @ port, ''127.0.0.1:'' @ port, ''[localhost]:'' @ port,
                 ''[127.0.0.1]:'' @ port, ''[::1]:'' @ port}"
    by (elim exE conjE)
  have plain: "isLoopbackAddr (h @ CHR '':'' # port)"
    if "h \<in> {''localhost'', ''127.0.0.1''}" for h
  proof -
    from that have "CHR '':'' \<notin> set h" "CHR ''['' \<notin> set h" "CHR '']'' \<notin> set h"
      by (elim insertE emptyE; simp)+
    with port have split: "SplitHostPort (h @ CHR '':'' # port) = (h, port, None)"
      by (simp add: SplitHostPort_plain)
    from that have "h \<in> {''localhost'', ''127.0.0.1'', ''::1''}"
      by (elim insertE emptyE) simp_all
    with split have "\<exists>h' p. SplitHostPort (h @ CHR '':'' # port) = (h', p, None)
        \<and> h' \<in> {''localhost'', ''127.0.0.1'', ''::1''}"
      by (intro exI conjI)
    then show ?thesis
      by (simp only: isLoopbackAddr_iff_split)
  qed
  have bracket: "isLoopbackAddr (CHR ''['' # h @ CHR '']'' # CHR '':'' # port)"
    if "h \<in> {''localhost'', ''127.0.0.1'', ''::1''}" for h
  proof -
    from that have "CHR ''['' \<notin> set h" "CHR '']'' \<notin> set h"
      by (elim insertE emptyE; simp)+
    with port have "SplitHostPort (CHR ''['' # h @ CHR '']'' # CHR '':'' # port)
        = (h, port, None)"
      by (simp add: SplitHostPort_bracket)
    with that have "\<exists>h' p. SplitHostPort (CHR ''['' # h @ CHR '']'' # CHR '':'' # port)
          = (h', p, None) \<and> h' \<in> {''localhost'', ''127.0.0.1'', ''::1''}"
      by (intro exI conjI)
    then show ?thesis
      by (simp only: isLoopbackAddr_iff_split)
  qed
  from a show "isLoopbackAddr a"
  proof (elim insertE emptyE)
    assume "a = ''localhost:'' @ port"
    with plain [of "''localhost''"] show ?thesis by simp
  next
    assume "a = ''127.0.0.1:'' @ port"
    with plain [of "''127.0.0.1''"] show ?thesis by simp
  next
    assume "a = ''[localhost]:'' @ port"
    with bracket [of "''localhost''"] show ?thesis by simp
  next
    assume "a = ''[127.0.0.1]:'' @ port"
    with bracket [of "''127.0.0.1''"] show ?thesis by simp
  next
    assume "a = ''[::1]:'' @ port"
    with bracket [of "''::1''"] show ?thesis by simp
  qed
qed

text \<open>
  C7. \<^verbatim>\<open>isLoopbackAddr\<close> is true exactly when \<^verbatim>\<open>net.SplitHostPort\<close> parses the address and
  the host it returns is \<^verbatim>\<open>localhost\<close>, \<^verbatim>\<open>127.0.0.1\<close> or \<^verbatim>\<open>::1\<close>. It is false, and does
  not fail, on an address that does not parse; an address without a colon is one
  (missing port). The three examples of the specification evaluate as it says. In
  terms of the text of the address: it is a loopback address exactly when it is
  \<^verbatim>\<open>localhost\<close> or \<^verbatim>\<open>127.0.0.1\<close>, bare or in brackets, or \<^verbatim>\<open>::1\<close> in brackets, followed by a
  colon and a port without colons and brackets.
\<close>

theorem isLoopbackAddr_host_portion:
  "isLoopbackAddr addr =
     (case SplitHostPort addr of
        (host, port, err) \<Rightarrow>
          err = None \<and> host \<in> {''localhost'', ''127.0.0.1'', ''::1''})
   \<and> (CHR '':'' \<notin> set addr \<longrightarrow>
        SplitHostPort addr = ([], [], Some missingPort) \<and> \<not> isLoopbackAddr addr)
   \<and> isLoopbackAddr ''localhost:8080''
   \<and> \<not> isLoopbackAddr ''example.com:443''
   \<and> \<not> isLoopbackAddr ''no-port-host''
   \<and> isLoopbackAddr addr =
       (\<exists>port. CHR '':'' \<notin> set port \<and> CHR ''['' \<notin> set port \<and> CHR '']'' \<notin> set port
          \<and> addr \<in> {''localhost:'' @ port, ''127.0.0.1:'' @ port, ''[localhost]:'' @ port,
                      ''[127.0.0.1]:'' @ port, ''[::1]:'' @ port})"
proof -
  have parsed: "isLoopbackAddr addr =
     (case SplitHostPort addr of
        (host, port, err) \<Rightarrow>
          err = None \<and> host \<in> {''localhost'', ''127.0.0.1'', ''::1''})"
  proof (cases "SplitHostPort addr")
    case (fields host port err)
    show ?thesis
    proof (cases err)
      case None
      with fields show ?thesis by (simp add: isLoopbackAddr_def host_in_set)
    next
      case (Some e)
      with fields SplitHostPort_error_host [of addr host port e] show ?thesis
        by (simp add: isLoopbackAddr_def)
    qed
  qed
  have no_port: "CHR '':'' \<notin> set addr \<longrightarrow>
      SplitHostPort addr = ([], [], Some missingPort) \<and> \<not> isLoopbackAddr addr"
    by (simp add: isLoopbackAddr_def SplitHostPort_def addrErr_def LastIndexByteString_neg)
  have ex1: "isLoopbackAddr ''localhost:8080''"
    by (simp add: loopback_defs)
  have ex2: "\<not> isLoopbackAddr ''example.com:443''"
    by (simp add: loopback_defs)
  have ex3: "\<not> isLoopbackAddr ''no-port-host''"
    by (simp add: loopback_defs)
  show ?thesis
    by (intro conjI) (fact parsed no_port ex1 ex2 ex3 isLoopbackAddr_addresses)+
qed

theorem isLoopbackAddr_host_portion_witness:
  "CHR '':'' \<notin> set ''127.0.0.1''
   \<and> SplitHostPort ''127.0.0.1'' = ([], [], Some missingPort)
   \<and> \<not> isLoopbackAddr ''127.0.0.1''
   \<and> SplitHostPort ''[::1]:3100'' = (''::1'', ''3100'', None)
   \<and> isLoopbackAddr ''[::1]:3100''"
proof -
  have colon: "CHR '':'' \<notin> set ''127.0.0.1''" by simp
  have split: "SplitHostPort ''[::1]:3100'' = (''::1'', ''3100'', None)"
    by (simp add: loopback_defs)
  from isLoopbackAddr_host_portion [of "''127.0.0.1''"] colon
  have "SplitHostPort ''127.0.0.1'' = ([], [], Some missingPort)
      \<and> \<not> isLoopbackAddr ''127.0.0.1''"
    by blast
  moreover from isLoopbackAddr_host_portion [of "''[::1]:3100''"] split
  have "isLoopbackAddr ''[::1]:3100''" by simp
  ultimately show ?thesis using colon split by blast
qed

section \<open>The terminal response\<close>

lemma outcome_Completed:
  assumes "transport_request lib p r hp = Inr (req2, hp2)"
    and "Client_Do (Provider p) req2 hp2 = Inr response"
    and "read_body lib response = Inr body"
  shows "outcome_of lib p r hp = Completed response body"
  using assms by (simp add: outcome_of_def)



lemma transport_request_same_Modify:
  assumes "Modify (Provider q) (Params q) = Modify (Provider p) (Params p)"
    and "inbound_after (Params q) r = inbound_after (Params p) r"
  shows "transport_request lib q r hp = transport_request lib p r hp"
  unfolding transport_request_def assms by (rule refl)

lemma outcome_of_same_transport:
  assumes "transport_request lib q r hp = transport_request lib p r hp"
    and "Client_Do (Provider q) = Client_Do (Provider p)"
  shows "outcome_of lib q r hp = outcome_of lib p r hp"
  unfolding outcome_of_def assms by (rule refl)

lemma read_body_plain:
  "Header_Get (resp_Header response) ''Content-Encoding'' \<noteq> ''gzip'' \<Longrightarrow>
   read_body lib response = Inr (resp_Body response)"
  by (simp add: read_body_def)

lemma read_body_gzip:
  "Header_Get (resp_Header response) ''Content-Encoding'' = ''gzip'' \<Longrightarrow>
   read_body lib response =
     (case gzip_NewReader lib (resp_Body response) of
        Inl err \<Rightarrow> Inl (Sprintln [''Error while decoding gzip data:'' @ LF, err])
      | Inr reader \<Rightarrow>
          (case ioutil_ReadAll lib reader of
             Inl err \<Rightarrow> Inl (Sprintln [''Error while reading gzip data:'' @ LF, err])
           | Inr data \<Rightarrow> Inr data))"
  by (simp add: read_body_def)

text \<open>
  C1. Every call of \<^verbatim>\<open>ServeHTTP\<close> makes exactly one \<^verbatim>\<open>WriteHeader\<close> call on the
  response writer. When the body returns early (the transport request cannot be built,
  the transport fails, or the gzip body cannot be decoded or read) \<^verbatim>\<open>completeFlag\<close> is
  still false and the deferred guard writes status 502 and no body. Otherwise the
  upstream status and the buffered body are written, the flag is true and no 502 is
  added.
\<close>

theorem ServeHTTP_one_terminal_response:
  "(completeFlag (ServeHTTP lib p w r hp out), calls (c_rw (ServeHTTP lib p w r hp out))) =
     (case outcome_of lib p r hp of
        ConstructionError err \<Rightarrow> (False, calls w @ [WriteHeader 502])
      | TransportError err \<Rightarrow> (False, calls w @ [WriteHeader 502])
      | DecodeError line \<Rightarrow> (False, calls w @ [WriteHeader 502])
      | Completed response body \<Rightarrow>
          (True, calls w @ [WriteHeader (StatusCode response), Write body]))"
  by (simp add: ServeHTTP_completeFlag ServeHTTP_rw split: outcome.split)

theorem ServeHTTP_one_terminal_response_witness:
  "(completeFlag (ServeHTTP example_lib (example_proxy (example_params ''onError'' ''basic''))
       example_writer (example_request ''/gz'') example_heap []),
    calls (c_rw (ServeHTTP example_lib (example_proxy (example_params ''onError'' ''basic''))
       example_writer (example_request ''/gz'') example_heap [])))
   = (True, [WriteHeader 200, Write ''hello''])
   \<and> (completeFlag (ServeHTTP example_lib (example_proxy (example_params ''onError'' ''basic''))
       example_writer (example_request ''/badgz'') example_heap []),
    calls (c_rw (ServeHTTP example_lib (example_proxy (example_params ''onError'' ''basic''))
       example_writer (example_request ''/badgz'') example_heap [])))
   = (False, [WriteHeader 502])
   \<and> (completeFlag (ServeHTTP example_lib
       (example_proxy ((example_params ''onError'' ''basic'')\<lparr>Remote := ''down.example.com:443''\<rparr>))
       example_writer (example_request ''/bar'') example_heap []),
    calls (c_rw (ServeHTTP example_lib
       (example_proxy ((example_params ''onError'' ''basic'')\<lparr>Remote := ''down.example.com:443''\<rparr>))
       example_writer (example_request ''/bar'') example_heap [])))
   = (False, [WriteHeader 502])
   \<and> (completeFlag (ServeHTTP example_lib
       (example_proxy ((example_params ''onError'' ''basic'')\<lparr>Remote := ''bad host''\<rparr>))
       example_writer (example_request ''/bar'') example_heap []),
    calls (c_rw (ServeHTTP example_lib
       (example_proxy ((example_params ''onError'' ''basic'')\<lparr>Remote := ''bad host''\<rparr>))
       example_writer (example_request ''/bar'') example_heap [])))
   = (False, [WriteHeader 502])"
  by (simp add: ServeHTTP_one_terminal_response example_outcome_gzip example_outcome_bad_gzip
      example_outcome_down example_outcome_bad_remote example_writer_def)

section \<open>The proxied response\<close>

text \<open>
  C2, as the specification states it, is false: when the upstream response declares
  \<^verbatim>\<open>Content-Encoding: gzip\<close> and its body is not a gzip stream, the outgoing call has
  returned a response with status 200, and the status written to the caller is 502.
\<close>

theorem upstream_status_replaced_on_bad_gzip:
  "transport_request example_lib (example_proxy (example_params ''onError'' ''basic''))
     (example_request ''/badgz'') example_heap =
   Inr (\<lparr>req_Method = ''POST'',
          req_URL = \<lparr>Scheme = ''https'', Host = ''node.example.com:3200'',
                      Path = ''/badgz'', RawQuery = [], Fragment = []\<rparr>,
          req_Header = 0, req_ContentLength = 7, req_Body = ''payload'',
          req_Host = ''node.example.com:3200''\<rparr>,
        [[(''Authorization'', [''Basic dXNlcjpwYXNz'']),
          (''Content-Type'', [''application/json''])], []])
   \<and> Client_Do (Provider (example_proxy (example_params ''onError'' ''basic'')))
        \<lparr>req_Method = ''POST'',
          req_URL = \<lparr>Scheme = ''https'', Host = ''node.example.com:3200'',
                      Path = ''/badgz'', RawQuery = [], Fragment = []\<rparr>,
          req_Header = 0, req_ContentLength = 7, req_Body = ''payload'',
          req_Host = ''node.example.com:3200''\<rparr>
        [[(''Authorization'', [''Basic dXNlcjpwYXNz'']),
          (''Content-Type'', [''application/json''])], []] =
      Inr \<lparr>StatusCode = 200, resp_Header = [(''Content-Encoding'', [''gzip''])],
            resp_Body = ''plain text''\<rparr>
   \<and> calls (c_rw (ServeHTTP example_lib (example_proxy (example_params ''onError'' ''basic''))
        example_writer (example_request ''/badgz'') example_heap [])) = [WriteHeader 502]"
  by (simp add: ServeHTTP_rw example_outcome_bad_gzip example_transport_request
      example_proxy_fields example_Client_Do example_writer_def)

text \<open>
  C2, amended. When the outgoing call returns a response and its body is buffered
  without a gzip error, the handler writes the upstream status code and then the
  buffered body, and nothing else: the writer's header map is left as it was. The
  buffered body is the upstream body itself unless \<^verbatim>\<open>Content-Encoding\<close> is \<^verbatim>\<open>gzip\<close>, and
  then it is what the gzip reader returns for the upstream body.
\<close>

theorem proxied_response_verbatim:
  assumes "transport_request lib p r hp = Inr (req2, hp2)"
    and "Client_Do (Provider p) req2 hp2 = Inr response"
    and "read_body lib response = Inr body"
  shows "c_rw (ServeHTTP lib p w r hp out) =
           w\<lparr>calls := calls w @ [WriteHeader (StatusCode response), Write body]\<rparr>
         \<and> rw_Header (c_rw (ServeHTTP lib p w r hp out)) = rw_Header w
         \<and> (Header_Get (resp_Header response) ''Content-Encoding'' \<noteq> ''gzip'' \<longrightarrow>
              body = resp_Body response)
         \<and> (Header_Get (resp_Header response) ''Content-Encoding'' = ''gzip'' \<longrightarrow>
              (\<exists>reader. gzip_NewReader lib (resp_Body response) = Inr reader
                 \<and> ioutil_ReadAll lib reader = Inr body))"
proof -
  have written: "c_rw (ServeHTTP lib p w r hp out) =
           w\<lparr>calls := calls w @ [WriteHeader (StatusCode response), Write body]\<rparr>"
    by (simp add: ServeHTTP_rw outcome_Completed [OF assms])
  then have header: "rw_Header (c_rw (ServeHTTP lib p w r hp out)) = rw_Header w"
    by simp
  have plain: "Header_Get (resp_Header response) ''Content-Encoding'' \<noteq> ''gzip'' \<longrightarrow>
              body = resp_Body response"
    using assms(3) by (auto simp: read_body_plain)
  have gzip: "Header_Get (resp_Header response) ''Content-Encoding'' = ''gzip'' \<longrightarrow>
              (\<exists>reader. gzip_NewReader lib (resp_Body response) = Inr reader
                 \<and> ioutil_ReadAll lib reader = Inr body)"
    using assms(3) by (auto simp: read_body_gzip split: sum.splits)
  from written header plain gzip show ?thesis by blast
qed

theorem proxied_response_verbatim_witness:
  "c_rw (ServeHTTP example_lib (example_proxy (example_params ''onError'' ''basic''))
      example_writer (example_request ''/gz'') example_heap []) =
     \<lparr>rw_Header = [], calls = [WriteHeader 200, Write ''hello''], write_error = None\<rparr>
   \<and> c_rw (ServeHTTP example_lib (example_proxy (example_params ''onError'' ''basic''))
      example_writer (example_request ''/missing'') example_heap []) =
     \<lparr>rw_Header = [], calls = [WriteHeader 404, Write ''not found''], write_error = None\<rparr>
   \<and> (\<exists>reader. gzip_NewReader example_lib gzip_hello = Inr reader
         \<and> ioutil_ReadAll example_lib reader = Inr ''hello'')"
proof -
  let ?p = "example_proxy (example_params ''onError'' ''basic'')"
  have gz: "transport_request example_lib ?p (example_request ''/gz'') example_heap =
   Inr (\<lparr>req_Method = ''POST'',
          req_URL = \<lparr>Scheme = ''https'', Host = ''node.example.com:3200'',
                      Path = ''/gz'', RawQuery = [], Fragment = []\<rparr>,
          req_Header = 0, req_ContentLength = 7, req_Body = ''payload'',
          req_Host = ''node.example.com:3200''\<rparr>,
        [[(''Authorization'', [''Basic dXNlcjpwYXNz'']),
          (''Content-Type'', [''application/json''])], []])"
    by (simp add: example_transport_request)
  have gz_do: "Client_Do (Provider ?p)
        \<lparr>req_Method = ''POST'',
          req_URL = \<lparr>Scheme = ''https'', Host = ''node.example.com:3200'',
                      Path = ''/gz'', RawQuery = [], Fragment = []\<rparr>,
          req_Header = 0, req_ContentLength = 7, req_Body = ''payload'',
          req_Host = ''node.example.com:3200''\<rparr>
        [[(''Authorization'', [''Basic dXNlcjpwYXNz'']),
          (''Content-Type'', [''application/json''])], []] =
      Inr \<lparr>StatusCode = 200, resp_Header = [(''Content-Encoding'', [''gzip''])],
            resp_Body = gzip_hello\<rparr>"
    by (simp add: example_proxy_fields example_Client_Do)
  have missing: "transport_request example_lib ?p (example_request ''/missing'') example_heap =
   Inr (\<lparr>req_Method = ''POST'',
          req_URL = \<lparr>Scheme = ''https'', Host = ''node.example.com:3200'',
                      Path = ''/missing'', RawQuery = [], Fragment = []\<rparr>,
          req_Header = 0, req_ContentLength = 7, req_Body = ''payload'',
          req_Host = ''node.example.com:3200''\<rparr>,
        [[(''Authorization'', [''Basic dXNlcjpwYXNz'']),
          (''Content-Type'', [''application/json''])], []])"
    by (simp add: example_transport_request)
  have missing_do: "Client_Do (Provider ?p)
        \<lparr>req_Method = ''POST'',
          req_URL = \<lparr>Scheme = ''https'', Host = ''node.example.com:3200'',
                      Path = ''/missing'', RawQuery = [], Fragment = []\<rparr>,
          req_Header = 0, req_ContentLength = 7, req_Body = ''payload'',
          req_Host = ''node.example.com:3200''\<rparr>
        [[(''Authorization'', [''Basic dXNlcjpwYXNz'']),
          (''Content-Type'', [''application/json''])], []] =
      Inr \<lparr>StatusCode = 404, resp_Header = [], resp_Body = ''not found''\<rparr>"
    by (simp add: example_proxy_fields example_Client_Do)
  from proxied_response_verbatim [OF gz gz_do example_read_body_gzip, of example_writer "[]"]
    proxied_response_verbatim [OF missing missing_do example_read_body_plain(1),
      of example_writer "[]"]
  show ?thesis
    by (simp add: example_writer_def Header_Get_def)
qed

section \<open>The logging policy\<close>

text \<open>
  C3, as the specification states it, is false: it lets the log be emitted for a
  completed request only under \<^verbatim>\<open>always\<close>, or under \<^verbatim>\<open>onNon200\<close> with a status other than
  200. With \<^verbatim>\<open>Whenlog\<close> empty, which is what \<^verbatim>\<open>newProxyFromFlags\<close> leaves there, a request
  that completes with status 200 is logged.
\<close>

theorem log_emitted_for_unlisted_policy:
  "completeFlag (ServeHTTP example_lib (example_proxy (example_params [] []))
      example_writer (example_request ''/bar'') example_heap [])
   \<and> Whenlog (Params (example_proxy (example_params [] []))) \<noteq> LogWhenAlways
   \<and> Whenlog (Params (example_proxy (example_params [] []))) \<noteq> LogWhenOnNon200
   \<and> c_stdout (ServeHTTP example_lib (example_proxy (example_params [] []))
      example_writer (example_request ''/bar'') example_heap []) =
     [''Requesting: POST https://node.example.com:3200/bar'' @ LF
      @ ''Response Status Code: 200'' @ LF @ LF]"
proof -
  have "response_log (example_params [] [])
          \<lparr>StatusCode = 200, resp_Header = [(''Content-Type'', [''text/plain''])],
            resp_Body = ''ok''\<rparr> ''ok'' = ''Response Status Code: 200'' @ LF"
    by (simp add: response_log_def Sprintln_def LogWhatDetailed_def Itoa_200
        example_params_fields)
  then show ?thesis
    by (simp add: ServeHTTP_completeFlag ServeHTTP_stdout ServeHTTP_logFlag
        ServeHTTP_logStrBuilder example_outcome_ok example_request_log suppressed_def
        Sprintln_def policy_defs example_proxy_fields example_params_fields)
qed

text \<open>
  C3, amended. The log block is printed at most once, when the handler exits, and it is
  printed if and only if the request aborted before the response was written, or
  \<^verbatim>\<open>Whenlog\<close> is neither \<^verbatim>\<open>onError\<close> nor \<^verbatim>\<open>onNon200\<close>, or \<^verbatim>\<open>Whenlog\<close> is \<^verbatim>\<open>onNon200\<close> and the
  upstream status is not 200. So \<^verbatim>\<open>onError\<close> suppresses the log of every completed
  request, whatever its status; and for the three values the specification lists, the
  condition is the one it gives.
\<close>

theorem log_emitted_iff:
  "logFlag (ServeHTTP lib p w r hp out) =
     (case outcome_of lib p r hp of
        Completed response body \<Rightarrow>
          Whenlog (Params p) \<noteq> LogWhenOnError
          \<and> \<not> (Whenlog (Params p) = LogWhenOnNon200 \<and> StatusCode response = 200)
      | _ \<Rightarrow> True)
   \<and> c_stdout (ServeHTTP lib p w r hp out) =
       out @ (if logFlag (ServeHTTP lib p w r hp out)
              then [Sprintln [logStrBuilder (ServeHTTP lib p w r hp out)]] else [])
   \<and> (Whenlog (Params p) \<in> {LogWhenOnError, LogWhenOnNon200, LogWhenAlways} \<longrightarrow>
        logFlag (ServeHTTP lib p w r hp out) =
          (case outcome_of lib p r hp of
             Completed response body \<Rightarrow>
               Whenlog (Params p) = LogWhenAlways
               \<or> (Whenlog (Params p) = LogWhenOnNon200 \<and> StatusCode response \<noteq> 200)
           | _ \<Rightarrow> True))"
proof -
  have flag: "logFlag (ServeHTTP lib p w r hp out) =
     (case outcome_of lib p r hp of
        Completed response body \<Rightarrow>
          Whenlog (Params p) \<noteq> LogWhenOnError
          \<and> \<not> (Whenlog (Params p) = LogWhenOnNon200 \<and> StatusCode response = 200)
      | _ \<Rightarrow> True)"
    by (simp add: ServeHTTP_logFlag suppressed_def split: outcome.split)
  have policy: "Whenlog (Params p) \<in> {LogWhenOnError, LogWhenOnNon200, LogWhenAlways} \<longrightarrow>
        logFlag (ServeHTTP lib p w r hp out) =
          (case outcome_of lib p r hp of
             Completed response body \<Rightarrow>
               Whenlog (Params p) = LogWhenAlways
               \<or> (Whenlog (Params p) = LogWhenOnNon200 \<and> StatusCode response \<noteq> 200)
           | _ \<Rightarrow> True)"
    unfolding flag
    by (auto simp: policy_defs split: outcome.split)
  from flag policy ServeHTTP_stdout [of lib p w r hp out] show ?thesis by blast
qed

theorem log_emitted_iff_witness:
  "Whenlog (Params (example_proxy (example_params ''onNon200'' ''basic'')))
     \<in> {LogWhenOnError, LogWhenOnNon200, LogWhenAlways}
   \<and> logFlag (ServeHTTP example_lib (example_proxy (example_params ''onNon200'' ''basic''))
        example_writer (example_request ''/missing'') example_heap [])
   \<and> \<not> logFlag (ServeHTTP example_lib (example_proxy (example_params ''onNon200'' ''basic''))
        example_writer (example_request ''/bar'') example_heap [])
   \<and> c_stdout (ServeHTTP example_lib (example_proxy (example_params ''onNon200'' ''basic''))
        example_writer (example_request ''/bar'') example_heap []) = []
   \<and> \<not> logFlag (ServeHTTP example_lib (example_proxy (example_params ''onError'' ''basic''))
        example_writer (example_request ''/missing'') example_heap [])
   \<and> logFlag (ServeHTTP example_lib
        (example_proxy ((example_params ''onError'' ''basic'')\<lparr>Remote := ''down.example.com:443''\<rparr>))
        example_writer (example_request ''/bar'') example_heap [])"
proof -
  let ?non200 = "example_proxy (example_params ''onNon200'' ''basic'')"
  let ?onError = "example_proxy (example_params ''onError'' ''basic'')"
  let ?down = "example_proxy ((example_params ''onError'' ''basic'')\<lparr>Remote := ''down.example.com:443''\<rparr>)"
  have listed: "Whenlog (Params ?non200) \<in> {LogWhenOnError, LogWhenOnNon200, LogWhenAlways}"
    by (simp add: example_proxy_fields example_params_fields policy_defs)
  from log_emitted_iff [of example_lib ?non200 example_writer "example_request ''/missing''"
      example_heap "[]"]
  have a: "logFlag (ServeHTTP example_lib ?non200 example_writer (example_request ''/missing'')
      example_heap [])"
    by (simp add: example_outcome_missing example_proxy_fields example_params_fields
        policy_defs)
  from log_emitted_iff [of example_lib ?non200 example_writer "example_request ''/bar''"
      example_heap "[]"]
  have b: "\<not> logFlag (ServeHTTP example_lib ?non200 example_writer (example_request ''/bar'')
      example_heap [])"
    "c_stdout (ServeHTTP example_lib ?non200 example_writer (example_request ''/bar'')
      example_heap []) = []"
    by (simp_all add: example_outcome_ok example_proxy_fields example_params_fields
        policy_defs)
  from log_emitted_iff [of example_lib ?onError example_writer "example_request ''/missing''"
      example_heap "[]"]
  have c: "\<not> logFlag (ServeHTTP example_lib ?onError example_writer (example_request ''/missing'')
      example_heap [])"
    by (simp add: example_outcome_missing example_proxy_fields example_params_fields
        policy_defs)
  from log_emitted_iff [of example_lib ?down example_writer "example_request ''/bar''"
      example_heap "[]"]
  have d: "logFlag (ServeHTTP example_lib ?down example_writer (example_request ''/bar'')
      example_heap [])"
    by (simp add: example_outcome_down)
  from listed a b c d show ?thesis by blast
qed

section \<open>The completion flag\<close>

text \<open>
  C5, as the specification states it, is false: the flag is set after the response
  write whether or not the write succeeds. On a writer whose \<^verbatim>\<open>Write\<close> returns an error
  the handler still ends with \<^verbatim>\<open>completeFlag\<close> true, because it discards the error.
\<close>

theorem completeFlag_true_after_failed_write:
  "completeFlag (ServeHTTP example_lib (example_proxy (example_params ''onError'' ''basic''))
      broken_writer (example_request ''/bar'') example_heap [])
   \<and> calls (c_rw (ServeHTTP example_lib (example_proxy (example_params ''onError'' ''basic''))
      broken_writer (example_request ''/bar'') example_heap [])) =
       [WriteHeader 200, Write ''ok'']
   \<and> snd (rw_Write (rw_WriteHeader broken_writer 200) ''ok'') = Some ''write: broken pipe''"
  by (simp add: ServeHTTP_completeFlag ServeHTTP_rw example_outcome_ok broken_writer_def
      rw_Write_def rw_WriteHeader_def)

text \<open>
  C5, amended. The flag is false when the body starts. The body leaves it as it is on
  every path that returns early and sets it on the path that reaches the end, and the
  deferred functions do not change it: so it goes from false to true at most once. It is
  true at handler exit exactly when the response write has been issued
  (\<^verbatim>\<open>WriteHeader\<close> with the upstream status, then \<^verbatim>\<open>Write\<close> with the body), whatever that
  \<^verbatim>\<open>Write\<close> returns; on every abort path it is false at handler exit.
\<close>

theorem completeFlag_transitions:
  "completeFlag (enter w r hp out) = False
   \<and> completeFlag (serve lib p c) =
       (case outcome_of lib p (c_req c) (c_store c) of
          Completed response body \<Rightarrow> True
        | _ \<Rightarrow> completeFlag c)
   \<and> completeFlag (deferred_guard (deferred_log c)) = completeFlag c
   \<and> (case outcome_of lib p r hp of
         Completed response body \<Rightarrow>
           completeFlag (ServeHTTP lib p w r hp out)
           \<and> c_rw (ServeHTTP lib p w r hp out) =
               fst (rw_Write (rw_WriteHeader w (StatusCode response)) body)
       | _ \<Rightarrow> \<not> completeFlag (ServeHTTP lib p w r hp out))"
proof -
  have start: "completeFlag (enter w r hp out) = False"
    by (simp add: enter_def)
  have body: "completeFlag (serve lib p c) =
       (case outcome_of lib p (c_req c) (c_store c) of
          Completed response body \<Rightarrow> True
        | _ \<Rightarrow> completeFlag c)"
    by (subst serve_result) simp
  have exit: "completeFlag (deferred_guard (deferred_log c)) = completeFlag c"
    by (simp add: deferred_guard_def deferred_log_def)
  have final: "(case outcome_of lib p r hp of
         Completed response body \<Rightarrow>
           completeFlag (ServeHTTP lib p w r hp out)
           \<and> c_rw (ServeHTTP lib p w r hp out) =
               fst (rw_Write (rw_WriteHeader w (StatusCode response)) body)
       | _ \<Rightarrow> \<not> completeFlag (ServeHTTP lib p w r hp out))"
    by (simp add: ServeHTTP_completeFlag ServeHTTP_rw rw_Write_def rw_WriteHeader_def
        split: outcome.split)
  from start body exit final show ?thesis by blast
qed

theorem completeFlag_transitions_witness:
  "completeFlag (ServeHTTP example_lib (example_proxy (example_params ''always'' ''basic''))
      broken_writer (example_request ''/missing'') example_heap [])
   \<and> c_rw (ServeHTTP example_lib (example_proxy (example_params ''always'' ''basic''))
      broken_writer (example_request ''/missing'') example_heap []) =
       \<lparr>rw_Header = [], calls = [WriteHeader 404, Write ''not found''],
        write_error = Some ''write: broken pipe''\<rparr>
   \<and> \<not> completeFlag (ServeHTTP example_lib (example_proxy (example_params ''always'' ''basic''))
      example_writer (example_request ''/badgz'') example_heap [])"
  using completeFlag_transitions [of broken_writer "example_request ''/missing''" example_heap
      "[]" example_lib "example_proxy (example_params ''always'' ''basic'')"
      "enter broken_writer (example_request ''/missing'') example_heap []"]
    completeFlag_transitions [of example_writer "example_request ''/badgz''" example_heap
      "[]" example_lib "example_proxy (example_params ''always'' ''basic'')"
      "enter example_writer (example_request ''/badgz'') example_heap []"]
  by (simp add: example_outcome_missing example_outcome_bad_gzip broken_writer_def
      rw_Write_def rw_WriteHeader_def)

section \<open>Gzip bodies\<close>



section \<open>The outgoing call, from what the library and the provider return\<close>

text \<open>
  The paths of the handler restated over the results of \<^verbatim>\<open>http.NewRequest\<close>, \<^verbatim>\<open>Modify\<close> and
  \<^verbatim>\<open>Client().Do\<close>, and the run of the handler as a function of them.
\<close>

lemma build_request_result:
  "build_request lib (inbound_after params r) buf hp =
     (case NewRequest_URL lib (if req_Method r = [] then ''GET'' else req_Method r)
             (URL_String lib (rewrite_target params (req_URL r))) of
        Inl err \<Rightarrow> Inl err
      | Inr u \<Rightarrow>
          Inr (\<lparr>req_Method = req_Method r, req_URL = u, req_Header = req_Header r,
                req_ContentLength = req_ContentLength r, req_Body = buf,
                req_Host = Host u\<rparr>, hp @ [[]]))"
  by (simp add: build_request_def http_NewRequest_def make_Header_def inbound_after_def
      Let_def split: sum.split)

lemma transport_request_refused:
  assumes "NewRequest_URL lib (if req_Method r = [] then ''GET'' else req_Method r)
             (URL_String lib (rewrite_target (Params p) (req_URL r))) = Inl err"
  shows "transport_request lib p r hp = Inl err"
    and "outcome_of lib p r hp = ConstructionError err"
  using assms by (simp_all add: outcome_of_def transport_request_def build_request_result)

lemma transport_request_sent:
  assumes "NewRequest_URL lib (if req_Method r = [] then ''GET'' else req_Method r)
             (URL_String lib (rewrite_target (Params p) (req_URL r))) = Inr u"
    and "Modify (Provider p) (Params p)
           \<lparr>req_Method = req_Method r, req_URL = u, req_Header = req_Header r,
             req_ContentLength = req_ContentLength r, req_Body = req_Body r,
             req_Host = Host u\<rparr> (hp @ [[]]) = (req2, hp2)"
  shows "transport_request lib p r hp = Inr (req2, hp2)"
    and "outcome_of lib p r hp =
           (case Client_Do (Provider p) req2 hp2 of
              Inl err \<Rightarrow> TransportError err
            | Inr response \<Rightarrow>
                (case read_body lib response of
                   Inl line \<Rightarrow> DecodeError line
                 | Inr body \<Rightarrow> Completed response body))"
  using assms by (simp_all add: outcome_of_def transport_request_def build_request_result)

lemma ServeHTTP_determined:
  assumes "transport_request lib' q r hp = transport_request lib p r hp"
    and "outcome_of lib' q r hp = outcome_of lib p r hp"
    and "Params q = Params p"
    and "URL_String lib' = URL_String lib"
  shows "ServeHTTP lib' q w r hp out = ServeHTTP lib p w r hp out"
proof -
  have writer: "c_rw (ServeHTTP lib' q w r hp out) = c_rw (ServeHTTP lib p w r hp out)"
    unfolding ServeHTTP_rw assms(2) by (rule refl)
  have complete: "completeFlag (ServeHTTP lib' q w r hp out)
      = completeFlag (ServeHTTP lib p w r hp out)"
    unfolding ServeHTTP_completeFlag assms(2) by (rule refl)
  have flag: "logFlag (ServeHTTP lib' q w r hp out) = logFlag (ServeHTTP lib p w r hp out)"
    unfolding ServeHTTP_logFlag assms(2,3) by (rule refl)
  have builder: "logStrBuilder (ServeHTTP lib' q w r hp out)
      = logStrBuilder (ServeHTTP lib p w r hp out)"
    unfolding ServeHTTP_logStrBuilder request_log_def assms(2,3,4) by (rule refl)
  have printed: "c_stdout (ServeHTTP lib' q w r hp out) = c_stdout (ServeHTTP lib p w r hp out)"
    unfolding ServeHTTP_stdout flag builder by (rule refl)
  have inbound: "c_req (ServeHTTP lib' q w r hp out) = c_req (ServeHTTP lib p w r hp out)"
    unfolding ServeHTTP_req assms(3) by (rule refl)
  have store: "c_store (ServeHTTP lib' q w r hp out) = c_store (ServeHTTP lib p w r hp out)"
    unfolding ServeHTTP_store assms(1) by (rule refl)
  show ?thesis
    by (rule ctx.equality) (simp_all add: writer complete flag builder printed inbound store)
qed

lemma sent_outcome:
  assumes "outcome_of lib p r hp =
           (case Client_Do (Provider p) req2 hp2 of
              Inl err \<Rightarrow> TransportError err
            | Inr response \<Rightarrow>
                (case read_body lib response of
                   Inl line \<Rightarrow> DecodeError line
                 | Inr body \<Rightarrow> Completed response body))"
  shows "(completeFlag (ServeHTTP lib p w r hp out), calls (c_rw (ServeHTTP lib p w r hp out))) =
     (case Client_Do (Provider p) req2 hp2 of
        Inl err \<Rightarrow> (False, calls w @ [WriteHeader 502])
      | Inr response \<Rightarrow>
          (case read_body lib response of
             Inl line \<Rightarrow> (False, calls w @ [WriteHeader 502])
           | Inr body \<Rightarrow> (True, calls w @ [WriteHeader (StatusCode response), Write body])))"
  by (simp add: ServeHTTP_completeFlag ServeHTTP_rw assms split: sum.split)

lemma example_new_request:
  "NewRequest_URL example_lib
     (if req_Method (example_request ''/bar'') = [] then ''GET''
      else req_Method (example_request ''/bar''))
     (URL_String example_lib
        (rewrite_target (Params (example_proxy (example_params x y)))
           (req_URL (example_request ''/bar'')))) =
   Inr \<lparr>Scheme = ''https'', Host = ''node.example.com:3200'', Path = ''/bar'',
         RawQuery = [], Fragment = []\<rparr>"
  by (simp add: example_defs rewrite_target_def example_remote_not_loopback Let_def)

lemma example_new_request_refused:
  "NewRequest_URL example_lib
     (if req_Method (example_request ''/bar'') = [] then ''GET''
      else req_Method (example_request ''/bar''))
     (URL_String example_lib
        (rewrite_target (Params (example_proxy ((example_params x y)\<lparr>Remote := ''bad host''\<rparr>)))
           (req_URL (example_request ''/bar'')))) =
   Inl ''parse: invalid character in host name''"
  by (simp add: example_defs rewrite_target_def loopback_defs Let_def)

lemma example_Modify:
  "Modify (Provider (example_proxy params)) (Params (example_proxy params))
     \<lparr>req_Method = req_Method (example_request ''/bar''),
       req_URL = \<lparr>Scheme = ''https'', Host = ''node.example.com:3200'', Path = ''/bar'',
                   RawQuery = [], Fragment = []\<rparr>,
       req_Header = req_Header (example_request ''/bar''),
       req_ContentLength = req_ContentLength (example_request ''/bar''),
       req_Body = req_Body (example_request ''/bar''),
       req_Host = Host \<lparr>Scheme = ''https'', Host = ''node.example.com:3200'', Path = ''/bar'',
                   RawQuery = [], Fragment = []\<rparr>\<rparr> (example_heap @ [[]]) =
   (\<lparr>req_Method = ''POST'',
      req_URL = \<lparr>Scheme = ''https'', Host = ''node.example.com:3200'',
                  Path = ''/bar'', RawQuery = [], Fragment = []\<rparr>,
      req_Header = 0, req_ContentLength = 7, req_Body = ''payload'',
      req_Host = ''node.example.com:3200''\<rparr>,
    [[(''Authorization'', [''Basic dXNlcjpwYXNz'']),
      (''Content-Type'', [''application/json''])], []])"
  by (simp add: example_proxy_def example_provider_def example_request_def example_heap_def)


section \<open>The target of the outgoing call\<close>

text \<open>
  C8. The rewrite sets the host of the request URL to the configured remote and the
  scheme to \<^verbatim>\<open>https\<close>, or to \<^verbatim>\<open>http\<close> when \<^verbatim>\<open>isLoopbackAddr\<close> accepts the remote. It is
  done once: the inbound request holds this URL when the handler exits, on every path.
  The outgoing call is made for this URL and no other: its text is what the handler
  logs and what it gives to \<^verbatim>\<open>http.NewRequest\<close>. When \<^verbatim>\<open>http.NewRequest\<close> refuses it the
  handler answers 502; when \<^verbatim>\<open>http.NewRequest\<close> returns a URL for it, the request that
  goes to the provider has that URL and its host, and the answer to the caller is the
  one the provider's client gives for that request. A library that differs from the one
  in use only in what \<^verbatim>\<open>http.NewRequest\<close> makes of other texts leaves the handler's result
  unchanged.
\<close>

theorem target_rewritten_once:
  "rewrite_target params u =
     u\<lparr>Host := Remote params,
       Scheme := (if isLoopbackAddr (Remote params) then ''http'' else ''https'')\<rparr>
   \<and> req_URL (c_req (ServeHTTP lib p w r hp out)) = rewrite_target (Params p) (req_URL r)
   \<and> (NewRequest_URL lib (if req_Method r = [] then ''GET'' else req_Method r)
          (URL_String lib (rewrite_target (Params p) (req_URL r))) = Inl err \<longrightarrow>
        c_rw (ServeHTTP lib p w r hp out) = w\<lparr>calls := calls w @ [WriteHeader 502]\<rparr>
        \<and> c_store (ServeHTTP lib p w r hp out) = hp
        \<and> logStrBuilder (ServeHTTP lib p w r hp out) =
            Sprintln [''Requesting:'', req_Method r,
                      URL_String lib (rewrite_target (Params p) (req_URL r))]
            @ (if string_ge (Whatlog (Params p)) LogWhatDetailed then req_Body r @ LF else [])
            @ Sprintln [''Error when make transport request:'' @ LF, err])
   \<and> (NewRequest_URL lib (if req_Method r = [] then ''GET'' else req_Method r)
          (URL_String lib (rewrite_target (Params p) (req_URL r))) = Inr target
        \<and> Modify (Provider p) (Params p)
             \<lparr>req_Method = req_Method r, req_URL = target, req_Header = req_Header r,
               req_ContentLength = req_ContentLength r, req_Body = req_Body r,
               req_Host = Host target\<rparr> (hp @ [[]]) = (req2, hp2) \<longrightarrow>
        c_store (ServeHTTP lib p w r hp out) = hp2
        \<and> (completeFlag (ServeHTTP lib p w r hp out),
            calls (c_rw (ServeHTTP lib p w r hp out))) =
             (case Client_Do (Provider p) req2 hp2 of
                Inl err \<Rightarrow> (False, calls w @ [WriteHeader 502])
              | Inr response \<Rightarrow>
                  (case read_body lib response of
                     Inl line \<Rightarrow> (False, calls w @ [WriteHeader 502])
                   | Inr body \<Rightarrow>
                       (True, calls w @ [WriteHeader (StatusCode response), Write body]))))
   \<and> (URL_String lib' = URL_String lib
        \<and> gzip_NewReader lib' = gzip_NewReader lib
        \<and> ioutil_ReadAll lib' = ioutil_ReadAll lib
        \<and> NewRequest_URL lib' (if req_Method r = [] then ''GET'' else req_Method r)
             (URL_String lib (rewrite_target (Params p) (req_URL r)))
           = NewRequest_URL lib (if req_Method r = [] then ''GET'' else req_Method r)
               (URL_String lib (rewrite_target (Params p) (req_URL r))) \<longrightarrow>
        ServeHTTP lib' p w r hp out = ServeHTTP lib p w r hp out)"
proof -
  let ?new = "\<lambda>l. NewRequest_URL l (if req_Method r = [] then ''GET'' else req_Method r)
          (URL_String lib (rewrite_target (Params p) (req_URL r)))"
  have rewrite: "rewrite_target params u =
     u\<lparr>Host := Remote params,
       Scheme := (if isLoopbackAddr (Remote params) then ''http'' else ''https'')\<rparr>"
    by (simp add: rewrite_target_def Let_def)
  have final: "req_URL (c_req (ServeHTTP lib p w r hp out)) =
      rewrite_target (Params p) (req_URL r)"
    by (simp add: ServeHTTP_req inbound_after_def)
  have refused: "c_rw (ServeHTTP lib p w r hp out) = w\<lparr>calls := calls w @ [WriteHeader 502]\<rparr>
        \<and> c_store (ServeHTTP lib p w r hp out) = hp
        \<and> logStrBuilder (ServeHTTP lib p w r hp out) =
            Sprintln [''Requesting:'', req_Method r,
                      URL_String lib (rewrite_target (Params p) (req_URL r))]
            @ (if string_ge (Whatlog (Params p)) LogWhatDetailed then req_Body r @ LF else [])
            @ Sprintln [''Error when make transport request:'' @ LF, err]"
    if "?new lib = Inl err"
    using transport_request_refused [OF that, of hp]
    by (simp add: ServeHTTP_rw ServeHTTP_store ServeHTTP_logStrBuilder request_log_def)
  have sent: "c_store (ServeHTTP lib p w r hp out) = hp2
        \<and> (completeFlag (ServeHTTP lib p w r hp out),
            calls (c_rw (ServeHTTP lib p w r hp out))) =
             (case Client_Do (Provider p) req2 hp2 of
                Inl err \<Rightarrow> (False, calls w @ [WriteHeader 502])
              | Inr response \<Rightarrow>
                  (case read_body lib response of
                     Inl line \<Rightarrow> (False, calls w @ [WriteHeader 502])
                   | Inr body \<Rightarrow>
                       (True, calls w @ [WriteHeader (StatusCode response), Write body])))"
    if new: "?new lib = Inr target"
      and modified: "Modify (Provider p) (Params p)
             \<lparr>req_Method = req_Method r, req_URL = target, req_Header = req_Header r,
               req_ContentLength = req_ContentLength r, req_Body = req_Body r,
               req_Host = Host target\<rparr> (hp @ [[]]) = (req2, hp2)"
    using transport_request_sent(1) [OF new modified]
      sent_outcome [OF transport_request_sent(2) [OF new modified], of w out]
    by (simp add: ServeHTTP_store)
  have same: "ServeHTTP lib' p w r hp out = ServeHTTP lib p w r hp out"
    if text_of: "URL_String lib' = URL_String lib"
      and header: "gzip_NewReader lib' = gzip_NewReader lib"
      and stream: "ioutil_ReadAll lib' = ioutil_ReadAll lib"
      and new: "?new lib' = ?new lib"
  proof -
    have built: "build_request lib' (inbound_after (Params p) r) (req_Body r) hp
        = build_request lib (inbound_after (Params p) r) (req_Body r) hp"
      unfolding build_request_result text_of new by (rule refl)
    have tr: "transport_request lib' p r hp = transport_request lib p r hp"
      unfolding transport_request_def built by (rule refl)
    have rd: "read_body lib' = read_body lib"
      unfolding read_body_def fun_eq_iff header stream by simp
    have oc: "outcome_of lib' p r hp = outcome_of lib p r hp"
      unfolding outcome_of_def tr rd by (rule refl)
    show ?thesis
      by (rule ServeHTTP_determined [OF tr oc refl text_of])
  qed
  from rewrite final refused sent same show ?thesis
    by (intro conjI impI) (simp_all only:)
qed

theorem target_rewritten_once_witness:
  "rewrite_target (example_params ''onError'' ''basic'') (req_URL (example_request ''/bar'')) =
     \<lparr>Scheme = ''https'', Host = ''node.example.com:3200'', Path = ''/bar'',
      RawQuery = [], Fragment = []\<rparr>
   \<and> rewrite_target ((example_params ''onError'' ''basic'')\<lparr>Remote := ''localhost:8545''\<rparr>)
        (req_URL (example_request ''/bar'')) =
     \<lparr>Scheme = ''http'', Host = ''localhost:8545'', Path = ''/bar'',
      RawQuery = [], Fragment = []\<rparr>
   \<and> req_URL (c_req (ServeHTTP example_lib (example_proxy (example_params ''onError'' ''basic''))
        example_writer (example_request ''/bar'') example_heap [])) =
     \<lparr>Scheme = ''https'', Host = ''node.example.com:3200'', Path = ''/bar'',
      RawQuery = [], Fragment = []\<rparr>
   \<and> c_rw (ServeHTTP example_lib
        (example_proxy ((example_params ''onError'' ''basic'')\<lparr>Remote := ''bad host''\<rparr>))
        example_writer (example_request ''/bar'') example_heap []) =
     \<lparr>rw_Header = [], calls = [WriteHeader 502], write_error = None\<rparr>
   \<and> logStrBuilder (ServeHTTP example_lib
        (example_proxy ((example_params ''onError'' ''basic'')\<lparr>Remote := ''bad host''\<rparr>))
        example_writer (example_request ''/bar'') example_heap []) =
     ''Requesting: POST https://bad host/bar'' @ LF
     @ ''Error when make transport request:'' @ LF
     @ '' parse: invalid character in host name'' @ LF
   \<and> (completeFlag (ServeHTTP example_lib (example_proxy (example_params ''onError'' ''basic''))
        example_writer (example_request ''/bar'') example_heap []),
      calls (c_rw (ServeHTTP example_lib (example_proxy (example_params ''onError'' ''basic''))
        example_writer (example_request ''/bar'') example_heap []))) =
     (True, [WriteHeader 200, Write ''ok''])
   \<and> ServeHTTP example_pinned_lib (example_proxy (example_params ''onError'' ''basic''))
        example_writer (example_request ''/bar'') example_heap []
     = ServeHTTP example_lib (example_proxy (example_params ''onError'' ''basic''))
        example_writer (example_request ''/bar'') example_heap []"
proof -
  let ?prm = "example_params ''onError'' ''basic''"
  let ?p = "example_proxy ?prm"
  let ?bad = "example_proxy (?prm\<lparr>Remote := ''bad host''\<rparr>)"
  let ?r = "example_request ''/bar''"
  let ?u = "\<lparr>Scheme = ''https'', Host = ''node.example.com:3200'', Path = ''/bar'',
      RawQuery = [], Fragment = []\<rparr>"
  let ?req2 = "\<lparr>req_Method = ''POST'', req_URL = ?u,
      req_Header = 0, req_ContentLength = 7, req_Body = ''payload'',
      req_Host = ''node.example.com:3200''\<rparr>"
  let ?hp2 = "[[(''Authorization'', [''Basic dXNlcjpwYXNz'']),
      (''Content-Type'', [''application/json''])], []]"
  note rewritten = target_rewritten_once [THEN conjunct1]
  note at_exit = target_rewritten_once [THEN conjunct2, THEN conjunct1]
  note refused = target_rewritten_once [THEN conjunct2, THEN conjunct2, THEN conjunct1,
      rule_format]
  note sent = target_rewritten_once [THEN conjunct2, THEN conjunct2, THEN conjunct2,
      THEN conjunct1, rule_format]
  note same = target_rewritten_once [THEN conjunct2, THEN conjunct2, THEN conjunct2,
      THEN conjunct2, rule_format]
  have lo: "isLoopbackAddr ''localhost:8545''"
    by (simp add: loopback_defs)
  have a: "rewrite_target ?prm (req_URL ?r) = ?u"
    unfolding rewritten [of ?prm "req_URL ?r"]
    by (simp add: example_params_fields example_remote_not_loopback example_request_def)
  have b: "rewrite_target (?prm\<lparr>Remote := ''localhost:8545''\<rparr>) (req_URL ?r) =
     \<lparr>Scheme = ''http'', Host = ''localhost:8545'', Path = ''/bar'',
      RawQuery = [], Fragment = []\<rparr>"
    unfolding rewritten [of "?prm\<lparr>Remote := ''localhost:8545''\<rparr>" "req_URL ?r"]
    using lo by (simp add: example_request_def)
  have c: "req_URL (c_req (ServeHTTP example_lib ?p example_writer ?r example_heap [])) = ?u"
    unfolding at_exit [of example_lib ?p example_writer ?r example_heap "[]"]
      example_proxy_fields
    by (rule a)
  note bad = refused [OF example_new_request_refused [of "''onError''" "''basic''"],
      of example_writer example_heap "[]"]
  have bad_text: "URL_String example_lib
      (rewrite_target (Params ?bad) (req_URL ?r)) = ''https://bad host/bar''"
    by (simp add: example_defs rewrite_target_def loopback_defs Let_def)
  have d1: "c_rw (ServeHTTP example_lib ?bad example_writer ?r example_heap []) =
     \<lparr>rw_Header = [], calls = [WriteHeader 502], write_error = None\<rparr>"
    using bad [THEN conjunct1] by (simp add: example_writer_def)
  have d2: "logStrBuilder (ServeHTTP example_lib ?bad example_writer ?r example_heap []) =
     ''Requesting: POST https://bad host/bar'' @ LF
     @ ''Error when make transport request:'' @ LF
     @ '' parse: invalid character in host name'' @ LF"
    unfolding bad [THEN conjunct2, THEN conjunct2] bad_text
    by (simp add: Sprintln_def example_proxy_fields example_params_def policy_defs
        example_request_def)
  note ok = sent [OF conjI [OF example_new_request [of "''onError''" "''basic''"]
      example_Modify [of ?prm]], of example_writer "[]"]
  have e: "(completeFlag (ServeHTTP example_lib ?p example_writer ?r example_heap []),
      calls (c_rw (ServeHTTP example_lib ?p example_writer ?r example_heap []))) =
     (True, [WriteHeader 200, Write ''ok''])"
    unfolding ok [THEN conjunct2]
    by (simp add: example_proxy_fields example_Client_Do example_read_body_plain
        example_writer_def)
  have pinned: "URL_String example_pinned_lib = URL_String example_lib"
    "gzip_NewReader example_pinned_lib = gzip_NewReader example_lib"
    "ioutil_ReadAll example_pinned_lib = ioutil_ReadAll example_lib"
    by (simp_all add: example_pinned_lib_def)
  have text_of: "URL_String example_lib (rewrite_target (Params ?p) (req_URL ?r))
      = ''https://node.example.com:3200/bar''"
    unfolding example_proxy_fields a by (simp add: example_lib_def)
  have "NewRequest_URL example_pinned_lib
     (if req_Method ?r = [] then ''GET'' else req_Method ?r)
     (URL_String example_lib (rewrite_target (Params ?p) (req_URL ?r))) = Inr ?u"
    unfolding text_of by (simp add: example_pinned_lib_def)
  then have agree: "NewRequest_URL example_pinned_lib
     (if req_Method ?r = [] then ''GET'' else req_Method ?r)
     (URL_String example_lib (rewrite_target (Params ?p) (req_URL ?r)))
     = NewRequest_URL example_lib
     (if req_Method ?r = [] then ''GET'' else req_Method ?r)
     (URL_String example_lib (rewrite_target (Params ?p) (req_URL ?r)))"
    unfolding example_new_request [of "''onError''" "''basic''"] .
  have f: "ServeHTTP example_pinned_lib ?p example_writer ?r example_heap []
     = ServeHTTP example_lib ?p example_writer ?r example_heap []"
    by (rule same) (intro conjI pinned agree)
  from a b c d1 d2 e f show ?thesis
    by (intro conjI) (simp_all only:)
qed


section \<open>The transport request and its headers\<close>

text \<open>
  C9. When \<^verbatim>\<open>http.NewRequest\<close> returns a request for the target, the request that the
  handler gives to \<^verbatim>\<open>Modify\<close> has the method and the content length of the inbound
  request, the buffered inbound body as its body, and as its header map the very map of
  the inbound request: the two requests hold the same reference, and the store holds one
  new map, the empty one that \<^verbatim>\<open>http.NewRequest\<close> made. The store that \<^verbatim>\<open>Modify\<close> leaves is
  the store at handler exit, so whatever \<^verbatim>\<open>Modify\<close> did to the header map of the transport
  request is what the inbound request's headers show afterwards. The request and the
  store that \<^verbatim>\<open>Modify\<close> returns go to \<^verbatim>\<open>Client().Do\<close> as they are: the answer to the caller
  is the one \<^verbatim>\<open>Client().Do\<close> gives for them. The handler consults the provider nowhere
  else: a provider whose \<^verbatim>\<open>Modify\<close> returns the same for that one request and store, and
  whose client answers the same for what \<^verbatim>\<open>Modify\<close> returned, gives the same run of the
  handler.
\<close>

theorem transport_request_shares_headers:
  assumes "NewRequest_URL lib (if req_Method r = [] then ''GET'' else req_Method r)
             (URL_String lib (rewrite_target (Params p) (req_URL r))) = Inr u"
    and "Modify (Provider p) (Params p)
           \<lparr>req_Method = req_Method r, req_URL = u, req_Header = req_Header r,
             req_ContentLength = req_ContentLength r, req_Body = req_Body r,
             req_Host = Host u\<rparr> (hp @ [[]]) = (req2, hp2)"
  shows "req_Header (c_req (ServeHTTP lib p w r hp out)) = req_Header r
         \<and> c_store (ServeHTTP lib p w r hp out) = hp2
         \<and> c_store (ServeHTTP lib p w r hp out) ! req_Header (c_req (ServeHTTP lib p w r hp out))
             = hp2 ! req_Header r
         \<and> (completeFlag (ServeHTTP lib p w r hp out),
             calls (c_rw (ServeHTTP lib p w r hp out))) =
              (case Client_Do (Provider p) req2 hp2 of
                 Inl err \<Rightarrow> (False, calls w @ [WriteHeader 502])
               | Inr response \<Rightarrow>
                   (case read_body lib response of
                      Inl line \<Rightarrow> (False, calls w @ [WriteHeader 502])
                    | Inr body \<Rightarrow>
                        (True, calls w @ [WriteHeader (StatusCode response), Write body])))
         \<and> (Params q = Params p
              \<and> Modify (Provider q) (Params p)
                  \<lparr>req_Method = req_Method r, req_URL = u, req_Header = req_Header r,
                    req_ContentLength = req_ContentLength r, req_Body = req_Body r,
                    req_Host = Host u\<rparr> (hp @ [[]]) = (req2, hp2)
              \<and> Client_Do (Provider q) req2 hp2 = Client_Do (Provider p) req2 hp2 \<longrightarrow>
            ServeHTTP lib q w r hp out = ServeHTTP lib p w r hp out)"
proof -
  note run = transport_request_sent [OF assms]
  have inbound: "req_Header (c_req (ServeHTTP lib p w r hp out)) = req_Header r"
    by (simp add: ServeHTTP_req inbound_after_def)
  have store: "c_store (ServeHTTP lib p w r hp out) = hp2"
    by (simp add: ServeHTTP_store run(1))
  have shown: "c_store (ServeHTTP lib p w r hp out)
      ! req_Header (c_req (ServeHTTP lib p w r hp out)) = hp2 ! req_Header r"
    unfolding store inbound by (rule refl)
  note answer = sent_outcome [OF run(2), of w out]
  have same: "ServeHTTP lib q w r hp out = ServeHTTP lib p w r hp out"
    if params: "Params q = Params p"
      and modify: "Modify (Provider q) (Params p)
                  \<lparr>req_Method = req_Method r, req_URL = u, req_Header = req_Header r,
                    req_ContentLength = req_ContentLength r, req_Body = req_Body r,
                    req_Host = Host u\<rparr> (hp @ [[]]) = (req2, hp2)"
      and client: "Client_Do (Provider q) req2 hp2 = Client_Do (Provider p) req2 hp2"
  proof -
    have new: "NewRequest_URL lib (if req_Method r = [] then ''GET'' else req_Method r)
             (URL_String lib (rewrite_target (Params q) (req_URL r))) = Inr u"
      unfolding params by (rule assms(1))
    have modify': "Modify (Provider q) (Params q)
                  \<lparr>req_Method = req_Method r, req_URL = u, req_Header = req_Header r,
                    req_ContentLength = req_ContentLength r, req_Body = req_Body r,
                    req_Host = Host u\<rparr> (hp @ [[]]) = (req2, hp2)"
      unfolding params by (rule modify)
    note run' = transport_request_sent [OF new modify']
    have tr: "transport_request lib q r hp = transport_request lib p r hp"
      unfolding run(1) run'(1) by (rule refl)
    have oc: "outcome_of lib q r hp = outcome_of lib p r hp"
      unfolding run(2) run'(2) client by (rule refl)
    show ?thesis
      by (rule ServeHTTP_determined [OF tr oc params refl])
  qed
  from inbound store shown answer same show ?thesis
    by (intro conjI impI) (simp_all only:)
qed

theorem transport_request_shares_headers_witness:
  "req_Header (c_req (ServeHTTP example_lib (example_proxy (example_params ''onError'' ''basic''))
      example_writer (example_request ''/bar'') example_heap [])) =
     req_Header (example_request ''/bar'')
   \<and> c_store (ServeHTTP example_lib (example_proxy (example_params ''onError'' ''basic''))
      example_writer (example_request ''/bar'') example_heap [])
     ! req_Header (c_req (ServeHTTP example_lib (example_proxy (example_params ''onError'' ''basic''))
      example_writer (example_request ''/bar'') example_heap [])) =
   [(''Authorization'', [''Basic dXNlcjpwYXNz'']), (''Content-Type'', [''application/json''])]
   \<and> example_heap ! req_Header (example_request ''/bar'') =
       [(''Content-Type'', [''application/json''])]
   \<and> (completeFlag (ServeHTTP example_lib (example_proxy (example_params ''onError'' ''basic''))
        example_writer (example_request ''/bar'') example_heap []),
      calls (c_rw (ServeHTTP example_lib (example_proxy (example_params ''onError'' ''basic''))
        example_writer (example_request ''/bar'') example_heap []))) =
     (True, [WriteHeader 200, Write ''ok''])
   \<and> ServeHTTP example_lib
        \<lparr>Params = example_params ''onError'' ''basic'', Provider = example_constant_provider\<rparr>
        example_writer (example_request ''/bar'') example_heap []
     = ServeHTTP example_lib (example_proxy (example_params ''onError'' ''basic''))
        example_writer (example_request ''/bar'') example_heap []"
proof -
  let ?prm = "example_params ''onError'' ''basic''"
  let ?p = "example_proxy ?prm"
  let ?q = "\<lparr>Params = ?prm, Provider = example_constant_provider\<rparr>"
  let ?r = "example_request ''/bar''"
  let ?req2 = "\<lparr>req_Method = ''POST'',
      req_URL = \<lparr>Scheme = ''https'', Host = ''node.example.com:3200'',
                  Path = ''/bar'', RawQuery = [], Fragment = []\<rparr>,
      req_Header = 0, req_ContentLength = 7, req_Body = ''payload'',
      req_Host = ''node.example.com:3200''\<rparr>"
  let ?hp2 = "[[(''Authorization'', [''Basic dXNlcjpwYXNz'']),
      (''Content-Type'', [''application/json''])], []]"
  note run = transport_request_shares_headers
      [OF example_new_request [of "''onError''" "''basic''"] example_Modify [of ?prm],
       of example_writer "[]"]
  note inbound = run [THEN conjunct1]
  note shown = run [THEN conjunct2, THEN conjunct2, THEN conjunct1]
  note answer = run [THEN conjunct2, THEN conjunct2, THEN conjunct2, THEN conjunct1]
  note same = run [THEN conjunct2, THEN conjunct2, THEN conjunct2, THEN conjunct2,
      rule_format]
  have a: "req_Header (c_req (ServeHTTP example_lib ?p example_writer ?r example_heap [])) =
      req_Header ?r"
    by (rule inbound)
  have b: "c_store (ServeHTTP example_lib ?p example_writer ?r example_heap [])
      ! req_Header (c_req (ServeHTTP example_lib ?p example_writer ?r example_heap [])) =
      [(''Authorization'', [''Basic dXNlcjpwYXNz'']), (''Content-Type'', [''application/json''])]"
    unfolding shown by (simp add: example_request_def)
  have c: "example_heap ! req_Header ?r = [(''Content-Type'', [''application/json''])]"
    by (simp add: example_heap_def example_request_def)
  have d: "(completeFlag (ServeHTTP example_lib ?p example_writer ?r example_heap []),
      calls (c_rw (ServeHTTP example_lib ?p example_writer ?r example_heap []))) =
     (True, [WriteHeader 200, Write ''ok''])"
    unfolding answer
    by (simp add: example_proxy_fields example_Client_Do example_read_body_plain
        example_writer_def)
  have params: "Params ?q = Params ?p"
    by (simp add: example_proxy_fields)
  have modify: "Modify (Provider ?q) (Params ?p)
     \<lparr>req_Method = req_Method ?r,
       req_URL = \<lparr>Scheme = ''https'', Host = ''node.example.com:3200'', Path = ''/bar'',
                   RawQuery = [], Fragment = []\<rparr>,
       req_Header = req_Header ?r,
       req_ContentLength = req_ContentLength ?r,
       req_Body = req_Body ?r,
       req_Host = Host \<lparr>Scheme = ''https'', Host = ''node.example.com:3200'', Path = ''/bar'',
                   RawQuery = [], Fragment = []\<rparr>\<rparr> (example_heap @ [[]]) = (?req2, ?hp2)"
    using example_Modify [of ?prm]
    by (simp add: example_constant_provider_def example_proxy_fields)
  have client: "Client_Do (Provider ?q) ?req2 ?hp2 = Client_Do (Provider ?p) ?req2 ?hp2"
    by (simp add: example_proxy_fields example_Client_Do example_constant_provider_def)
  have e: "ServeHTTP example_lib ?q example_writer ?r example_heap []
     = ServeHTTP example_lib ?p example_writer ?r example_heap []"
    by (rule same) (intro conjI params modify client)
  from a b c d e show ?thesis
    by (intro conjI) (simp_all only:)
qed


section \<open>Whatlog and the response\<close>

text \<open>
  C10. Take two calls of \<^verbatim>\<open>ServeHTTP\<close> with the same inbound request, store, writer,
  library and provider, whose parameters differ in \<^verbatim>\<open>Whatlog\<close> only, and let the provider's
  \<^verbatim>\<open>Modify\<close> behave the same under both parameters. Then the two calls leave the same
  response writer (the same status and body written), the same flags, the same inbound
  request and the same store: only the text logged can differ.
\<close>

theorem Whatlog_only_affects_log:
  assumes "Modify (Provider p) ((Params p)\<lparr>Whatlog := x\<rparr>) = Modify (Provider p) (Params p)"
  shows "c_rw (ServeHTTP lib (p\<lparr>Params := (Params p)\<lparr>Whatlog := x\<rparr>\<rparr>) w r hp out)
           = c_rw (ServeHTTP lib p w r hp out)
         \<and> completeFlag (ServeHTTP lib (p\<lparr>Params := (Params p)\<lparr>Whatlog := x\<rparr>\<rparr>) w r hp out)
           = completeFlag (ServeHTTP lib p w r hp out)
         \<and> logFlag (ServeHTTP lib (p\<lparr>Params := (Params p)\<lparr>Whatlog := x\<rparr>\<rparr>) w r hp out)
           = logFlag (ServeHTTP lib p w r hp out)
         \<and> c_req (ServeHTTP lib (p\<lparr>Params := (Params p)\<lparr>Whatlog := x\<rparr>\<rparr>) w r hp out)
           = c_req (ServeHTTP lib p w r hp out)
         \<and> c_store (ServeHTTP lib (p\<lparr>Params := (Params p)\<lparr>Whatlog := x\<rparr>\<rparr>) w r hp out)
           = c_store (ServeHTTP lib p w r hp out)"
proof -
  let ?q = "p\<lparr>Params := (Params p)\<lparr>Whatlog := x\<rparr>\<rparr>"
  have inbound: "inbound_after ((Params p)\<lparr>Whatlog := x\<rparr>) r = inbound_after (Params p) r"
    by (simp add: inbound_after_def rewrite_target_def)
  have tr: "transport_request lib ?q r hp = transport_request lib p r hp"
    by (rule transport_request_same_Modify) (simp_all add: assms inbound)
  have oc: "outcome_of lib ?q r hp = outcome_of lib p r hp"
    by (rule outcome_of_same_transport [OF tr]) simp
  have sup: "suppressed ((Params p)\<lparr>Whatlog := x\<rparr>) = suppressed (Params p)"
    by (simp add: suppressed_def fun_eq_iff)
  show ?thesis
    by (simp add: ServeHTTP_rw ServeHTTP_completeFlag ServeHTTP_logFlag ServeHTTP_req
        ServeHTTP_store tr oc sup inbound split: outcome.split)
qed

theorem Whatlog_only_affects_log_witness:
  "c_rw (ServeHTTP example_lib (example_proxy (example_params ''always'' ''detailed''))
      example_writer (example_request ''/bar'') example_heap [])
   = c_rw (ServeHTTP example_lib (example_proxy (example_params ''always'' ''basic''))
      example_writer (example_request ''/bar'') example_heap [])
   \<and> c_stdout (ServeHTTP example_lib (example_proxy (example_params ''always'' ''detailed''))
      example_writer (example_request ''/bar'') example_heap []) =
     [''Requesting: POST https://node.example.com:3200/bar'' @ LF @ ''payload'' @ LF
      @ ''Response Status Code: 200'' @ LF @ ''ok'' @ LF @ LF]
   \<and> c_stdout (ServeHTTP example_lib (example_proxy (example_params ''always'' ''basic''))
      example_writer (example_request ''/bar'') example_heap []) =
     [''Requesting: POST https://node.example.com:3200/bar'' @ LF
      @ ''Response Status Code: 200'' @ LF @ LF]"
proof -
  let ?p = "example_proxy (example_params ''always'' ''basic'')"
  have same: "Modify (Provider ?p) ((Params ?p)\<lparr>Whatlog := ''detailed''\<rparr>)
      = Modify (Provider ?p) (Params ?p)"
    by (simp add: example_proxy_fields example_provider_def)
  have q: "?p\<lparr>Params := (Params ?p)\<lparr>Whatlog := ''detailed''\<rparr>\<rparr>
      = example_proxy (example_params ''always'' ''detailed'')"
    by (simp add: example_proxy_def example_params_def)
  from Whatlog_only_affects_log [OF same, of example_lib example_writer
      "example_request ''/bar''" example_heap "[]"]
  have rw: "c_rw (ServeHTTP example_lib (example_proxy (example_params ''always'' ''detailed''))
      example_writer (example_request ''/bar'') example_heap [])
   = c_rw (ServeHTTP example_lib ?p example_writer (example_request ''/bar'') example_heap [])"
    unfolding q by blast
  have detailed: "c_stdout (ServeHTTP example_lib
      (example_proxy (example_params ''always'' ''detailed''))
      example_writer (example_request ''/bar'') example_heap []) =
     [''Requesting: POST https://node.example.com:3200/bar'' @ LF @ ''payload'' @ LF
      @ ''Response Status Code: 200'' @ LF @ ''ok'' @ LF @ LF]"
    by (simp add: ServeHTTP_stdout ServeHTTP_logFlag ServeHTTP_logStrBuilder
        example_outcome_ok example_request_log response_log_def suppressed_def Sprintln_def
        policy_defs Itoa_200 example_proxy_fields example_params_fields)
  have basic: "c_stdout (ServeHTTP example_lib ?p
      example_writer (example_request ''/bar'') example_heap []) =
     [''Requesting: POST https://node.example.com:3200/bar'' @ LF
      @ ''Response Status Code: 200'' @ LF @ LF]"
    by (simp add: ServeHTTP_stdout ServeHTTP_logFlag ServeHTTP_logStrBuilder
        example_outcome_ok example_request_log response_log_def suppressed_def Sprintln_def
        policy_defs Itoa_200 example_proxy_fields example_params_fields)
  from rw detailed basic show ?thesis by blast
qed

section \<open>The logging flags of the command line\<close>

lemma newProxyFromFlags_policies:
  assumes "newProxyFromFlags ext args = Some (params, cfg)"
  shows "Whenlog params = (if flag_Var (flag_debugmode args) False then LogWhenAlways else [])"
    and "Whatlog params = (if flag_Var (flag_debugmode args) False then LogWhatDetailed else [])"
  using assms
  by (auto simp: newProxyFromFlags_def Let_def split: if_splits prod.splits)

lemma newProxyFromFlags_validates:
  assumes "newProxyFromFlags ext args = Some (params, cfg)"
  shows "flag_Var (flag_whenlog args) LogWhenOnError
           \<in> {LogWhenOnError, LogWhenOnNon200, LogWhenAlways}"
    and "flag_Var (flag_whatlog args) LogWhatBasic \<in> {LogWhatBasic, LogWhatDetailed}"
  using assms
  by (auto simp: newProxyFromFlags_def Let_def split: if_splits prod.splits)

lemma newProxyFromFlags_ignores_policies:
  assumes "flag_Var a LogWhenOnError \<in> set [LogWhenOnError, LogWhenOnNon200, LogWhenAlways]"
    and "flag_Var b LogWhatBasic \<in> set [LogWhatBasic, LogWhatDetailed]"
    and "flag_Var (flag_whenlog args) LogWhenOnError
           \<in> set [LogWhenOnError, LogWhenOnNon200, LogWhenAlways]"
    and "flag_Var (flag_whatlog args) LogWhatBasic \<in> set [LogWhatBasic, LogWhatDetailed]"
  shows "newProxyFromFlags ext (args\<lparr>flag_whenlog := a, flag_whatlog := b\<rparr>)
           = newProxyFromFlags ext args"
proof -
  let ?args = "args\<lparr>flag_whenlog := a, flag_whatlog := b\<rparr>"
  note valid = assms [THEN eqTrueI]
  have fields:
    "flag_whenlog ?args = a" "flag_whatlog ?args = b"
    "flag_method ?args = flag_method args" "flag_local ?args = flag_local args"
    "flag_remote ?args = flag_remote args" "flag_cert ?args = flag_cert args"
    "flag_insecure ?args = flag_insecure args" "flag_username ?args = flag_username args"
    "flag_password ?args = flag_password args" "flag_client_id ?args = flag_client_id args"
    "flag_tenant_id ?args = flag_tenant_id args"
    "flag_client_secret ?args = flag_client_secret args"
    "flag_webview ?args = flag_webview args"
    "flag_authcode_addr ?args = flag_authcode_addr args"
    "flag_debugmode ?args = flag_debugmode args"
    by simp_all
  show ?thesis
    by (simp only: newProxyFromFlags_def Let_def fields valid not_True_eq_False if_False)
qed

text \<open>
  C4. When \<^verbatim>\<open>newProxyFromFlags\<close> returns and \<^verbatim>\<open>-debugmode\<close> is not set, the \<^verbatim>\<open>Whenlog\<close> and
  \<^verbatim>\<open>Whatlog\<close> fields of the parameters it returns are empty strings. The values of
  \<^verbatim>\<open>-whenlog\<close> and \<^verbatim>\<open>-whatlog\<close> have passed the range check, and nothing else is done with
  them: any other values that pass it give the same result. A proxy with these
  parameters prints the log block of every request, and the block holds the request
  line and then the error or the status line, never a body.
\<close>

theorem logging_flags_never_reach_Params:
  assumes "newProxyFromFlags ext args = Some (Params p, cfg)"
    and "flag_debugmode args \<noteq> Some True"
  shows "Whenlog (Params p) = [] \<and> Whatlog (Params p) = []
    \<and> flag_Var (flag_whenlog args) LogWhenOnError
        \<in> set [LogWhenOnError, LogWhenOnNon200, LogWhenAlways]
    \<and> flag_Var (flag_whatlog args) LogWhatBasic \<in> set [LogWhatBasic, LogWhatDetailed]
    \<and> (\<forall>a b. flag_Var a LogWhenOnError \<in> set [LogWhenOnError, LogWhenOnNon200, LogWhenAlways]
          \<longrightarrow> flag_Var b LogWhatBasic \<in> set [LogWhatBasic, LogWhatDetailed]
          \<longrightarrow> newProxyFromFlags ext (args\<lparr>flag_whenlog := a, flag_whatlog := b\<rparr>)
                = Some (Params p, cfg))
    \<and> logFlag (ServeHTTP lib p w r hp out)
    \<and> c_stdout (ServeHTTP lib p w r hp out) =
        out @ [Sprintln [logStrBuilder (ServeHTTP lib p w r hp out)]]
    \<and> logStrBuilder (ServeHTTP lib p w r hp out) =
        Sprintln [''Requesting:'', req_Method r,
                  URL_String lib (rewrite_target (Params p) (req_URL r))]
        @ (case outcome_of lib p r hp of
             ConstructionError err \<Rightarrow>
               Sprintln [''Error when make transport request:'' @ LF, err]
           | TransportError err \<Rightarrow>
               Sprintln [''Error when send the transport request:'' @ LF, err]
           | DecodeError line \<Rightarrow> line
           | Completed response body \<Rightarrow>
               Sprintln [''Response Status Code:'', Itoa (StatusCode response)])"
proof -
  have debug: "flag_Var (flag_debugmode args) False = False"
    using assms(2) by (cases "flag_debugmode args") (simp_all add: flag_Var_def)
  have policies: "Whenlog (Params p) = []" "Whatlog (Params p) = []"
    using newProxyFromFlags_policies [OF assms(1)] debug by simp_all
  have checked: "flag_Var (flag_whenlog args) LogWhenOnError
        \<in> set [LogWhenOnError, LogWhenOnNon200, LogWhenAlways]"
    "flag_Var (flag_whatlog args) LogWhatBasic \<in> set [LogWhatBasic, LogWhatDetailed]"
    using newProxyFromFlags_validates [OF assms(1)] by simp_all
  have ignored: "\<forall>a b. flag_Var a LogWhenOnError
            \<in> set [LogWhenOnError, LogWhenOnNon200, LogWhenAlways]
          \<longrightarrow> flag_Var b LogWhatBasic \<in> set [LogWhatBasic, LogWhatDetailed]
          \<longrightarrow> newProxyFromFlags ext (args\<lparr>flag_whenlog := a, flag_whatlog := b\<rparr>)
                = Some (Params p, cfg)"
    using newProxyFromFlags_ignores_policies [OF _ _ checked] assms(1) by metis
  have not_suppressed: "\<not> suppressed (Params p) response" for response
    by (simp add: suppressed_def policies policy_defs)
  have flag: "logFlag (ServeHTTP lib p w r hp out)"
    by (simp add: ServeHTTP_logFlag not_suppressed split: outcome.split)
  have printed: "c_stdout (ServeHTTP lib p w r hp out) =
        out @ [Sprintln [logStrBuilder (ServeHTTP lib p w r hp out)]]"
    by (simp add: ServeHTTP_stdout flag)
  have basic: "\<not> string_ge (Whatlog (Params p)) LogWhatDetailed"
    by (simp add: policies policy_defs)
  have logged: "logStrBuilder (ServeHTTP lib p w r hp out) =
        Sprintln [''Requesting:'', req_Method r,
                  URL_String lib (rewrite_target (Params p) (req_URL r))]
        @ (case outcome_of lib p r hp of
             ConstructionError err \<Rightarrow>
               Sprintln [''Error when make transport request:'' @ LF, err]
           | TransportError err \<Rightarrow>
               Sprintln [''Error when send the transport request:'' @ LF, err]
           | DecodeError line \<Rightarrow> line
           | Completed response body \<Rightarrow>
               Sprintln [''Response Status Code:'', Itoa (StatusCode response)])"
    by (simp add: ServeHTTP_logStrBuilder request_log_def response_log_def basic
        split: outcome.split)
  from policies checked ignored flag printed logged show ?thesis by blast
qed

lemma example_newProxyFromFlags:
  "newProxyFromFlags example_externals example_args =
     Some (example_params [] [], BasicAuth ''node.example.com:3200'' ''user'' ''pass'')"
  by (simp add: newProxyFromFlags_def example_externals_def example_args_def flag_Var_def
      example_params_def defaultLocalAddr_def policy_defs Let_def)

theorem logging_flags_never_reach_Params_witness:
  "newProxyFromFlags example_externals example_args =
     Some (Params (example_proxy (example_params [] [])),
           BasicAuth ''node.example.com:3200'' ''user'' ''pass'')
   \<and> flag_debugmode example_args \<noteq> Some True
   \<and> flag_whenlog example_args = Some ''onNon200''
   \<and> flag_whatlog example_args = Some ''detailed''
   \<and> Whenlog (Params (example_proxy (example_params [] []))) = []
   \<and> Whatlog (Params (example_proxy (example_params [] []))) = []
   \<and> newProxyFromFlags example_externals
        (example_args\<lparr>flag_whenlog := Some ''always'', flag_whatlog := None\<rparr>) =
       Some (Params (example_proxy (example_params [] [])),
             BasicAuth ''node.example.com:3200'' ''user'' ''pass'')
   \<and> c_stdout (ServeHTTP example_lib (example_proxy (example_params [] [])) example_writer
        (example_request ''/bar'') example_heap []) =
       [''Requesting: POST https://node.example.com:3200/bar'' @ LF
        @ ''Response Status Code: 200'' @ LF @ LF]"
proof -
  let ?p = "example_proxy (example_params [] [])"
  let ?cfg = "BasicAuth ''node.example.com:3200'' ''user'' ''pass''"
  have returned: "newProxyFromFlags example_externals example_args = Some (Params ?p, ?cfg)"
    by (simp add: example_newProxyFromFlags example_proxy_fields)
  have flags: "flag_debugmode example_args \<noteq> Some True"
    "flag_whenlog example_args = Some ''onNon200''"
    "flag_whatlog example_args = Some ''detailed''"
    by (simp_all add: example_args_def)
  note t = logging_flags_never_reach_Params [OF returned flags(1), of example_lib
      example_writer "example_request ''/bar''" example_heap "[]"]
  from t have policies: "Whenlog (Params ?p) = []" "Whatlog (Params ?p) = []"
    by blast+
  have "flag_Var (Some ''always'') LogWhenOnError
          \<in> set [LogWhenOnError, LogWhenOnNon200, LogWhenAlways]"
    "flag_Var None LogWhatBasic \<in> set [LogWhatBasic, LogWhatDetailed]"
    by (simp_all add: flag_Var_def policy_defs)
  with t have other: "newProxyFromFlags example_externals
        (example_args\<lparr>flag_whenlog := Some ''always'', flag_whatlog := None\<rparr>) =
       Some (Params ?p, ?cfg)"
    by blast
  from t have "c_stdout (ServeHTTP example_lib ?p example_writer
        (example_request ''/bar'') example_heap []) =
        [] @ [Sprintln [logStrBuilder (ServeHTTP example_lib ?p example_writer
        (example_request ''/bar'') example_heap [])]]"
    and "logStrBuilder (ServeHTTP example_lib ?p example_writer
        (example_request ''/bar'') example_heap []) =
        Sprintln [''Requesting:'', req_Method (example_request ''/bar''),
                  URL_String example_lib
                    (rewrite_target (Params ?p) (req_URL (example_request ''/bar'')))]
        @ (case outcome_of example_lib ?p (example_request ''/bar'') example_heap of
             ConstructionError err \<Rightarrow>
               Sprintln [''Error when make transport request:'' @ LF, err]
           | TransportError err \<Rightarrow>
               Sprintln [''Error when send the transport request:'' @ LF, err]
           | DecodeError line \<Rightarrow> line
           | Completed response body \<Rightarrow>
               Sprintln [''Response Status Code:'', Itoa (StatusCode response)])"
    by blast+
  moreover have "URL_String example_lib
      (rewrite_target (Params ?p) (req_URL (example_request ''/bar''))) =
      ''https://node.example.com:3200/bar''"
    and "req_Method (example_request ''/bar'') = ''POST''"
    by (simp_all add: example_proxy_fields rewrite_target_def example_params_fields
        example_remote_not_loopback example_request_def example_lib_def Let_def)
  ultimately have printed: "c_stdout (ServeHTTP example_lib ?p example_writer
        (example_request ''/bar'') example_heap []) =
       [''Requesting: POST https://node.example.com:3200/bar'' @ LF
        @ ''Response Status Code: 200'' @ LF @ LF]"
    by (simp add: example_outcome_ok Sprintln_def Itoa_200)
  from returned flags policies other printed show ?thesis by blast
qed

end
